theory Spec2Isabelle
  imports Complex_Main "HOL-Library.Signed_Division" "HOL-Library.Sublist"
begin

section \<open>Go values used by the exporter\<close>

text \<open>
  The exporter is written in Go. \<open>int64\<close> and \<open>time.Duration\<close> (an \<open>int64\<close> count of
  nanoseconds) are modelled as \<open>int\<close> with the two's-complement wrap-around written out
  by \<open>wrap64\<close>; Go's integer division truncates towards zero (\<open>sdiv\<close>) and panics on a
  zero divisor; indexing or slicing out of range and reading a field through a nil pointer
  panic. A panic is a value \<open>Inl p\<close>.
\<close>

datatype go_panic = DivideByZero | IndexOutOfRange | SliceBoundsOutOfRange | NilPointerDereference

type_synonym Duration = int

type_synonym Time = int

definition minInt64 :: int where
  "minInt64 = - (2 ^ 63)"

definition maxInt64 :: int where
  "maxInt64 = 2 ^ 63 - 1"

definition wrap64 :: "int \<Rightarrow> int" where
  "wrap64 x = (x + 2 ^ 63) mod 2 ^ 64 - 2 ^ 63"

definition div64 :: "int \<Rightarrow> int \<Rightarrow> go_panic + int" where
  "div64 a b = (if b = 0 then Inl DivideByZero else Inr (wrap64 (a sdiv b)))"

definition index :: "'a list \<Rightarrow> int \<Rightarrow> go_panic + 'a" where
  "index xs i =
     (if 0 \<le> i \<and> i < int (length xs) then Inr (xs ! nat i) else Inl IndexOutOfRange)"

text \<open>
  \<open>time.Time\<close> is an instant, here a number of nanoseconds since the Unix epoch.
  \<open>t.Sub(u)\<close> is the duration \<open>t - u\<close>, saturated at the largest and smallest
  \<open>Duration\<close>. The zero \<open>time.Time{}\<close> is the first instant of year 1.
\<close>

definition TimeSub :: "Time \<Rightarrow> Time \<Rightarrow> Duration" where
  "TimeSub t u =
     (let d = t - u in if d > maxInt64 then maxInt64 else if d < minInt64 then minInt64 else d)"

definition zeroTime :: Time where
  "zeroTime = - 62135596800000000000"

section \<open>float64 conversion and division\<close>

text \<open>
  The gauges are \<open>float64\<close> values converted from integers, and \<open>IsBlockTimeStable\<close> and
  the bonded ratio divide two of them. A finite
  \<open>float64\<close> is modelled by the rational number it denotes. \<open>roundFloat64\<close> rounds a
  rational to the nearest number with a 53-bit significand, ties to the even significand,
  as IEEE 754 conversion, division and addition do; the exponent range is left out, since
  the numbers rounded here are integers of magnitude at most \<open>2 ^ 63\<close>, their quotients
  and the seconds of a \<open>Duration\<close>.
  \<open>bitLength n\<close> is the number of binary digits of \<open>n\<close>, and \<open>exponentOf q\<close> the exponent
  \<open>e\<close> with \<open>2 ^ e \<le> q < 2 ^ (e + 1)\<close> of a positive \<open>q\<close>.
\<close>

function bitLength :: "int \<Rightarrow> int" where
  "bitLength n = (if n \<le> 0 then 0 else 1 + bitLength (n div 2))"
  by pat_completeness auto
termination
  by (relation "measure nat") auto

declare bitLength.simps [simp del]

definition exponentOf :: "rat \<Rightarrow> int" where
  "exponentOf q =
     (case quotient_of q of (a, b) \<Rightarrow>
        (let d = bitLength a - bitLength b
         in if 2 powi d \<le> q then d else d - 1))"

definition roundHalfEven :: "rat \<Rightarrow> int" where
  "roundHalfEven x =
     (let f = \<lfloor>x\<rfloor>; r = x - of_int f
      in if r < 1 / 2 then f else if r > 1 / 2 then f + 1
         else if even f then f else f + 1)"

definition roundFloat64 :: "rat \<Rightarrow> rat" where
  "roundFloat64 q =
     (if q = 0 then 0
      else (let e = exponentOf \<bar>q\<bar>;
                n = roundHalfEven (\<bar>q\<bar> * 2 powi (52 - e))
            in sgn q * of_int n * 2 powi (e - 52)))"

definition float64 :: "int \<Rightarrow> rat" where
  "float64 x = roundFloat64 (of_int x)"

definition divFloat64 :: "rat \<Rightarrow> rat \<Rightarrow> rat" where
  "divFloat64 x y = roundFloat64 (x / y)"

definition addFloat64 :: "rat \<Rightarrow> rat \<Rightarrow> rat" where
  "addFloat64 x y = roundFloat64 (x + y)"

section \<open>util.BlockTimeCalculator\<close>

record BlockTimeCalculator =
  lastBlockTime :: Time
  lastBlockHeight :: int
  blockTimeHistory :: "Duration list"
  maxHistorySize :: int

definition NewBlockTimeCalculator :: "int \<Rightarrow> BlockTimeCalculator" where
  "NewBlockTimeCalculator m =
     (let m' = (if m \<le> 0 then 100 else m)
      in \<lparr>lastBlockTime = zeroTime, lastBlockHeight = 0,
          blockTimeHistory = [], maxHistorySize = m'\<rparr>)"

text \<open>
  \<open>UpdateBlockTime\<close>: the interval is appended under the guard, the slice
  \<open>history[1:]\<close> drops the oldest entry when the length exceeds \<open>maxHistorySize\<close>, and
  the two baseline fields are assigned on every call, outside the guard.
\<close>

definition UpdateBlockTime :: "BlockTimeCalculator \<Rightarrow> int \<Rightarrow> Time \<Rightarrow> BlockTimeCalculator" where
  "UpdateBlockTime btc height blockTime =
     (let hist =
        (if lastBlockHeight btc > 0 \<and> height > lastBlockHeight btc
         then (let timeDiff = TimeSub blockTime (lastBlockTime btc);
                   appended = blockTimeHistory btc @ [timeDiff]
               in if int (length appended) > maxHistorySize btc then drop 1 appended
                  else appended)
         else blockTimeHistory btc)
      in btc\<lparr>blockTimeHistory := hist, lastBlockTime := blockTime, lastBlockHeight := height\<rparr>)"

text \<open>The running total of the \<open>for ... range\<close> loops: \<open>total += duration\<close> in \<open>int64\<close>.\<close>

fun sumDurations :: "Duration \<Rightarrow> Duration list \<Rightarrow> Duration" where
  "sumDurations tot [] = tot"
| "sumDurations tot (d # ds) = sumDurations (wrap64 (tot + d)) ds"

definition GetAverageBlockTime :: "BlockTimeCalculator \<Rightarrow> go_panic + Duration" where
  "GetAverageBlockTime btc =
     (if length (blockTimeHistory btc) = 0 then Inr 0
      else div64 (sumDurations 0 (blockTimeHistory btc)) (int (length (blockTimeHistory btc))))"

definition GetLatestBlockTime :: "BlockTimeCalculator \<Rightarrow> go_panic + Duration" where
  "GetLatestBlockTime btc =
     (if length (blockTimeHistory btc) = 0 then Inr 0
      else index (blockTimeHistory btc) (int (length (blockTimeHistory btc)) - 1))"

text \<open>The single pass of \<open>GetBlockTimeStats\<close> over the history: total, min and max.\<close>

fun statsLoop :: "Duration \<times> Duration \<times> Duration \<Rightarrow> Duration list
    \<Rightarrow> Duration \<times> Duration \<times> Duration" where
  "statsLoop (tot, mn, mx) [] = (tot, mn, mx)"
| "statsLoop (tot, mn, mx) (d # ds) =
     statsLoop (wrap64 (tot + d), (if d < mn then d else mn), (if d > mx then d else mx)) ds"

definition GetBlockTimeStats :: "BlockTimeCalculator
    \<Rightarrow> go_panic + (Duration \<times> Duration \<times> Duration)" where
  "GetBlockTimeStats btc =
     (if length (blockTimeHistory btc) = 0 then Inr (0, 0, 0)
      else case index (blockTimeHistory btc) 0 of
        Inl p \<Rightarrow> Inl p
      | Inr first \<Rightarrow>
          (case statsLoop (0, first, first) (blockTimeHistory btc) of
             (tot, mn, mx) \<Rightarrow>
               (case div64 tot (int (length (blockTimeHistory btc))) of
                  Inl p \<Rightarrow> Inl p
                | Inr avg \<Rightarrow> Inr (avg, mn, mx))))"

definition EstimateBlocksInDuration :: "BlockTimeCalculator \<Rightarrow> Duration \<Rightarrow> go_panic + int" where
  "EstimateBlocksInDuration btc duration =
     (case GetAverageBlockTime btc of
        Inl p \<Rightarrow> Inl p
      | Inr avgBlockTime \<Rightarrow>
          if avgBlockTime = 0 then Inr 0 else div64 duration avgBlockTime)"

definition EstimateTimeForBlocks :: "BlockTimeCalculator \<Rightarrow> int \<Rightarrow> go_panic + Duration" where
  "EstimateTimeForBlocks btc blockCount =
     (case GetAverageBlockTime btc of
        Inl p \<Rightarrow> Inl p
      | Inr avgBlockTime \<Rightarrow> Inr (wrap64 (avgBlockTime * blockCount)))"

definition IsBlockTimeStable :: "BlockTimeCalculator \<Rightarrow> go_panic + bool" where
  "IsBlockTimeStable btc =
     (if length (blockTimeHistory btc) < 10 then Inr False
      else case GetBlockTimeStats btc of
        Inl p \<Rightarrow> Inl p
      | Inr (avg, mn, mx) \<Rightarrow>
          if avg = 0 then Inr False
          else (let variance = divFloat64 (float64 (wrap64 (mx - mn))) (float64 avg)
                in Inr (variance < 1 / 2)))"

definition GetHistorySize :: "BlockTimeCalculator \<Rightarrow> int" where
  "GetHistorySize btc = int (length (blockTimeHistory btc))"

subsection \<open>Sequences of observations\<close>

text \<open>
  Feeding a list of \<open>(height, timestamp)\<close> observations, oldest first, is a sequence of
  calls of \<open>UpdateBlockTime\<close>. \<open>intervals\<close> lists the durations between consecutive
  timestamps and \<open>newest n\<close> keeps the last \<open>n\<close> entries of a list; both serve to state
  what the history holds.
\<close>

fun feed :: "BlockTimeCalculator \<Rightarrow> (int \<times> Time) list \<Rightarrow> BlockTimeCalculator" where
  "feed btc [] = btc"
| "feed btc ((height, blockTime) # obs) = feed (UpdateBlockTime btc height blockTime) obs"

fun intervals :: "Time list \<Rightarrow> Duration list" where
  "intervals [] = []"
| "intervals [t] = []"
| "intervals (t # u # ts) = TimeSub u t # intervals (u # ts)"

definition newest :: "nat \<Rightarrow> 'a list \<Rightarrow> 'a list" where
  "newest n xs = drop (length xs - n) xs"

section \<open>strconv.ParseInt\<close>

text \<open>
  \<open>strconv.ParseInt(s, 10, 64)\<close> of the Go standard library: an optional sign, then one
  or more decimal digits and nothing else; a value outside \<open>int64\<close> is an error. Every
  call site of the collector tests \<open>err == nil\<close>, so the result is an option.
\<close>

definition digitValue :: "char \<Rightarrow> int option" where
  "digitValue c =
     (let code = (of_char c :: nat)
      in if 48 \<le> code \<and> code \<le> 57 then Some (int code - 48) else None)"

fun parseDigits :: "int \<Rightarrow> string \<Rightarrow> int option" where
  "parseDigits n [] = Some n"
| "parseDigits n (c # cs) =
     (case digitValue c of None \<Rightarrow> None | Some d \<Rightarrow> parseDigits (n * 10 + d) cs)"

definition ParseInt :: "string \<Rightarrow> int option" where
  "ParseInt s =
     (if s = [] then None
      else let neg = (hd s = CHR ''-'');
               ds = (if hd s = CHR ''+'' \<or> hd s = CHR ''-'' then tl s else s)
           in if ds = [] then None
              else case parseDigits 0 ds of
                None \<Rightarrow> None
              | Some n \<Rightarrow>
                  if \<not> neg \<and> n > maxInt64 then None
                  else if neg \<and> n > 2 ^ 63 then None
                  else Some (if neg then - n else n))"

section \<open>Slicing and hexadecimal parsing\<close>

text \<open>
  \<open>s[n:]\<close> on a Go string panics when \<open>n\<close> exceeds the length. \<open>strconv.ParseInt(s, 16, 64)\<close>
  accepts an optional sign and then one or more hexadecimal digits of either case, with
  no \<open>0x\<close> prefix; \<open>strconv.ParseUint(s, 16, 32)\<close> accepts no sign. A value out of range is
  an error, and every call site tests \<open>err == nil\<close>.
\<close>

definition sliceFrom :: "string \<Rightarrow> nat \<Rightarrow> go_panic + string" where
  "sliceFrom s n = (if n \<le> length s then Inr (drop n s) else Inl SliceBoundsOutOfRange)"

definition hexValue :: "char \<Rightarrow> int option" where
  "hexValue c =
     (let code = (of_char c :: nat)
      in if 48 \<le> code \<and> code \<le> 57 then Some (int code - 48)
         else if 97 \<le> code \<and> code \<le> 102 then Some (int code - 87)
         else if 65 \<le> code \<and> code \<le> 70 then Some (int code - 55)
         else None)"

fun parseHex :: "int \<Rightarrow> string \<Rightarrow> int option" where
  "parseHex n [] = Some n"
| "parseHex n (c # cs) =
     (case hexValue c of None \<Rightarrow> None | Some d \<Rightarrow> parseHex (n * 16 + d) cs)"

definition ParseUintHex :: "nat \<Rightarrow> string \<Rightarrow> int option" where
  "ParseUintHex bitSize s =
     (if s = [] then None
      else case parseHex 0 s of
             None \<Rightarrow> None
           | Some n \<Rightarrow> if n < 2 ^ bitSize then Some n else None)"

definition ParseIntHex :: "string \<Rightarrow> int option" where
  "ParseIntHex s =
     (if s = [] then None
      else let neg = (hd s = CHR ''-'');
               ds = (if hd s = CHR ''+'' \<or> hd s = CHR ''-'' then tl s else s)
           in case ParseUintHex 64 ds of
                None \<Rightarrow> None
              | Some n \<Rightarrow>
                  if \<not> neg \<and> n > maxInt64 then None
                  else if neg \<and> n > 2 ^ 63 then None
                  else Some (if neg then - n else n))"

section \<open>rpc.Client: the node's answers\<close>

datatype error = Error string

record Signature =
  BlockIDFlag :: int
  ValidatorAddress :: string

record Block =
  ProposerAddress :: string
  Signatures :: "Signature list"

record ValidatorInfo =
  ConsensusAddress :: string
  Moniker :: string
  Status :: string
  Jailed :: bool

record Metric =
  desc :: string
  gauge :: rat
  labelValues :: "string list"

text \<open>
  The client performs HTTP queries; within one scrape the node is taken as a fixed set
  of answers. \<open>statusAnswer\<close> is \<open>LatestBlockHeight\<close> of \<open>/status\<close> or the error;
  \<open>blockAnswer\<close> is indexed by the \<open>height\<close> query parameter, \<open>None\<close> when the URL
  carries none. \<open>supplyAndParamGauges\<close> stands for the gauges of the staking-pool,
  community-pool, bank-supply, mint, wallet, parameter and governance queries, and
  \<open>validatorDetailGauges\<close> for the token, share, commission and reward gauges of one
  validator: both are decoded from further answers and copied to the sink as they are.
\<close>

record Node =
  statusAnswer :: "error + string"
  blockAnswer :: "int option \<Rightarrow> error + Block"
  validatorsAnswer :: "error + ValidatorInfo list"
  supplyAndParamGauges :: "Metric list"
  validatorDetailGauges :: "string \<Rightarrow> string \<Rightarrow> Metric list"

definition GetStatus :: "Node \<Rightarrow> error + string" where
  "GetStatus node = statusAnswer node"

definition GetBlock :: "Node \<Rightarrow> int \<Rightarrow> error + Block" where
  "GetBlock node height =
     (if height > 0 then blockAnswer node (Some height) else blockAnswer node None)"

definition GetValidators :: "Node \<Rightarrow> error + ValidatorInfo list" where
  "GetValidators node = validatorsAnswer node"

section \<open>collector.UnifiedCollector\<close>

record Chain =
  ChainID :: string
  Validators :: "string list"

record EthereumWallet =
  Address :: string
  Name :: string

record Ethereum =
  RPCURL :: string
  JWTSecret :: string
  StakingContract :: string
  EthereumAddresses :: "EthereumWallet list"

text \<open>\<open>ethereumConfig\<close> is a pointer in the source: \<open>None\<close> is \<open>nil\<close>.\<close>

record UnifiedCollector =
  client :: Node
  cfg :: Chain
  ethereumConfig :: "Ethereum option"
  blockTimeCalculator :: BlockTimeCalculator

record ValidatorStat =
  signedBlocks :: int
  missedBlocks :: int
  consecutiveMissed :: int
  maxConsecutiveMissed :: int
  proposals :: int

type_synonym ValidatorStats = "string \<rightharpoonup> ValidatorStat"

definition newMetric :: "string \<Rightarrow> rat \<Rightarrow> string list \<Rightarrow> Metric" where
  "newMetric d v ls = \<lparr>desc = d, gauge = v, labelValues = ls\<rparr>"

text \<open>
  \<open>Time.Unix()\<close> is the instant in whole seconds. \<open>Duration.Seconds()\<close> is
  \<open>float64(sec) + float64(nsec)/1e9\<close> for \<open>sec = d / Second\<close> and \<open>nsec = d % Second\<close>.
\<close>

definition Unix :: "Time \<Rightarrow> int" where
  "Unix t = t div 1000000000"

definition Seconds :: "Duration \<Rightarrow> rat" where
  "Seconds d =
     (let sec = d sdiv 1000000000; nsec = d smod 1000000000
      in addFloat64 (float64 sec) (divFloat64 (float64 nsec) 1000000000))"

subsection \<open>Aggregate statistics of the latest block\<close>

text \<open>The loop over the signatures of the latest block: total, active, inactive.\<close>

fun countSignatures :: "int \<times> int \<times> int \<Rightarrow> Signature list \<Rightarrow> int \<times> int \<times> int" where
  "countSignatures (totalValidators, activeValidators, inactiveValidators) [] =
     (totalValidators, activeValidators, inactiveValidators)"
| "countSignatures (totalValidators, activeValidators, inactiveValidators) (sig # sigs) =
     countSignatures
       (totalValidators + 1,
        (if BlockIDFlag sig = 4 then activeValidators + 1 else activeValidators),
        (if BlockIDFlag sig = 4 then inactiveValidators
         else if BlockIDFlag sig = 5 then inactiveValidators + 1 else inactiveValidators))
       sigs"

definition latestSignatureCounts :: "Node \<Rightarrow> string \<Rightarrow> int \<times> int \<times> int" where
  "latestSignatureCounts node latestBlockHeight =
     (case ParseInt latestBlockHeight of
        None \<Rightarrow> (0, 0, 0)
      | Some currentHeight \<Rightarrow>
          (case GetBlock node currentHeight of
             Inl e \<Rightarrow> (0, 0, 0)
           | Inr block \<Rightarrow> countSignatures (0, 0, 0) (Signatures block)))"

definition bondedRatio :: "int \<Rightarrow> int \<Rightarrow> rat" where
  "bondedRatio totalValidators activeValidators =
     (if totalValidators > 0
      then divFloat64 (float64 activeValidators) (float64 totalValidators)
      else 0)"

definition validatorStatisticsMetrics :: "string \<Rightarrow> int \<times> int \<times> int \<Rightarrow> Metric list" where
  "validatorStatisticsMetrics chainID counts =
     (case counts of (totalValidators, activeValidators, inactiveValidators) \<Rightarrow>
        [newMetric ''cosmos_validators_total'' (float64 totalValidators) [chainID],
         newMetric ''cosmos_validators_active'' (float64 activeValidators) [chainID],
         newMetric ''cosmos_validators_inactive'' (float64 inactiveValidators) [chainID],
         newMetric ''cosmos_validators_bonded_ratio''
           (bondedRatio totalValidators activeValidators) [chainID]])"

subsection \<open>The window scan\<close>

definition zeroStat :: ValidatorStat where
  "zeroStat = \<lparr>signedBlocks = 0, missedBlocks = 0, consecutiveMissed = 0,
               maxConsecutiveMissed = 0, proposals = 0\<rparr>"

fun initStats :: "string list \<Rightarrow> ValidatorStats \<Rightarrow> ValidatorStats" where
  "initStats [] validatorStats = validatorStats"
| "initStats (validatorAddr # rest) validatorStats =
     initStats rest (validatorStats(validatorAddr \<mapsto> zeroStat))"

text \<open>The inner loop over the signatures of a block, left by \<open>break\<close> at a COMMIT entry.\<close>

fun hasSigned :: "string \<Rightarrow> Signature list \<Rightarrow> bool" where
  "hasSigned validatorAddr [] = False"
| "hasSigned validatorAddr (sig # sigs) =
     (if ValidatorAddress sig = validatorAddr
      then (if BlockIDFlag sig = 4 then True else hasSigned validatorAddr sigs)
      else hasSigned validatorAddr sigs)"

definition recordSignature :: "bool \<Rightarrow> ValidatorStat \<Rightarrow> ValidatorStat" where
  "recordSignature signed stats =
     (if signed
      then stats\<lparr>signedBlocks := signedBlocks stats + 1, consecutiveMissed := 0\<rparr>
      else (let stats1 = stats\<lparr>missedBlocks := missedBlocks stats + 1,
                                 consecutiveMissed := consecutiveMissed stats + 1\<rparr>
            in if consecutiveMissed stats1 > maxConsecutiveMissed stats1
               then stats1\<lparr>maxConsecutiveMissed := consecutiveMissed stats1\<rparr>
               else stats1))"

definition countProposal :: "Block \<Rightarrow> ValidatorStats \<Rightarrow> ValidatorStats" where
  "countProposal block validatorStats =
     (case validatorStats (ProposerAddress block) of
        None \<Rightarrow> validatorStats
      | Some stats \<Rightarrow>
          validatorStats(ProposerAddress block \<mapsto> stats\<lparr>proposals := proposals stats + 1\<rparr>))"

text \<open>
  One fetched block: the proposer's count, then every key of the map is visited once
  and its entry replaced; the entries do not depend on the order of the visit.
\<close>

definition processBlock :: "Block \<Rightarrow> ValidatorStats \<Rightarrow> ValidatorStats" where
  "processBlock block validatorStats =
     (\<lambda>validatorAddr.
        case countProposal block validatorStats validatorAddr of
          None \<Rightarrow> None
        | Some stats \<Rightarrow>
            Some (recordSignature (hasSigned validatorAddr (Signatures block)) stats))"

text \<open>The loop \<open>for i := 0; i < 100 && currentHeight-i > 0; i++\<close>; a failed fetch is skipped.\<close>

function scanWindow :: "Node \<Rightarrow> int \<Rightarrow> int \<Rightarrow> ValidatorStats \<Rightarrow> ValidatorStats" where
  "scanWindow node currentHeight i validatorStats =
     (if i < 100 \<and> currentHeight - i > 0
      then scanWindow node currentHeight (i + 1)
             (case GetBlock node (currentHeight - i) of
                Inl e \<Rightarrow> validatorStats
              | Inr block \<Rightarrow> processBlock block validatorStats)
      else validatorStats)"
  by pat_completeness auto
termination
  by (relation "measure (\<lambda>(node, currentHeight, i, validatorStats). nat (100 - i))") auto

declare scanWindow.simps [simp del]

definition windowStats :: "Node \<Rightarrow> Chain \<Rightarrow> string \<Rightarrow> ValidatorStats" where
  "windowStats node chain latestBlockHeight =
     (let validatorStats = initStats (Validators chain) Map.empty
      in case ParseInt latestBlockHeight of
           None \<Rightarrow> validatorStats
         | Some currentHeight \<Rightarrow> scanWindow node currentHeight 0 validatorStats)"

subsection \<open>Post-processing\<close>

text \<open>
  The active status of a validator: the first entry of the latest block with its address
  decides (\<open>break\<close>); the variable starts at \<open>0.0\<close>.
\<close>

fun activeFlag :: "string \<Rightarrow> Signature list \<Rightarrow> rat \<Rightarrow> rat" where
  "activeFlag validatorAddr [] validatorActive = validatorActive"
| "activeFlag validatorAddr (sig # sigs) validatorActive =
     (if ValidatorAddress sig = validatorAddr
      then (if BlockIDFlag sig = 4 then 1
            else if BlockIDFlag sig = 5 then 0 else validatorActive)
      else activeFlag validatorAddr sigs validatorActive)"

definition validatorActiveStatus :: "Node \<Rightarrow> string \<Rightarrow> string \<Rightarrow> rat" where
  "validatorActiveStatus node latestBlockHeight validatorAddr =
     (case ParseInt latestBlockHeight of
        None \<Rightarrow> 0
      | Some currentHeight \<Rightarrow>
          (case GetBlock node currentHeight of
             Inl e \<Rightarrow> 0
           | Inr block \<Rightarrow> activeFlag validatorAddr (Signatures block) 0))"

text \<open>
  The chain-wide gauges of the first configured validator:
  \<open>(signedBlocks, missedBlocks, maxConsecutiveMissed)\<close>.
\<close>

definition firstValidatorSummary ::
    "Node \<Rightarrow> Chain \<Rightarrow> string \<Rightarrow> ValidatorStats \<Rightarrow> int \<times> int \<times> int" where
  "firstValidatorSummary node chain latestBlockHeight validatorStats =
     (if length (Validators chain) > 0
      then (let firstValidator = hd (Validators chain)
            in case validatorStats firstValidator of
                 None \<Rightarrow> (0, 0, 0)
               | Some stats \<Rightarrow>
                   if validatorActiveStatus node latestBlockHeight firstValidator = 0
                   then (signedBlocks stats, 0, 0)
                   else (signedBlocks stats, missedBlocks stats, maxConsecutiveMissed stats))
      else (0, 0, 0))"

definition tenderdutyMetrics :: "string \<Rightarrow> int \<Rightarrow> int \<times> int \<times> int \<Rightarrow> Metric list" where
  "tenderdutyMetrics chainID height summary =
     (case summary of (signedBlocks', missedBlocks', maxConsecutiveMissed') \<Rightarrow>
        [newMetric ''cosmos_td_up'' 1 [chainID],
         newMetric ''cosmos_td_node_height'' (float64 height) [chainID],
         newMetric ''cosmos_td_blocks_behind'' 0 [chainID],
         newMetric ''cosmos_td_signed_blocks'' (float64 signedBlocks') [chainID],
         newMetric ''cosmos_validators_missed_blocks'' (float64 missedBlocks') [chainID],
         newMetric ''cosmos_td_consecutive_missed''
           (float64 maxConsecutiveMissed') [chainID],
         newMetric ''cosmos_td_validator_active'' 1 [chainID],
         newMetric ''cosmos_td_validator_jailed'' 0 [chainID],
         newMetric ''cosmos_td_time_since_last_block'' 0 [chainID]])"

text \<open>The per-validator missed-blocks gauge: \<open>stats.missedBlocks\<close>, or 0 when inactive.\<close>

definition reportedMissedBlocks :: "rat \<Rightarrow> ValidatorStat \<Rightarrow> int" where
  "reportedMissedBlocks validatorActive stats =
     (if validatorActive = 0 then 0 else missedBlocks stats)"

fun validatorInfoMap :: "ValidatorInfo list \<Rightarrow> (string \<rightharpoonup> ValidatorInfo)
    \<Rightarrow> (string \<rightharpoonup> ValidatorInfo)" where
  "validatorInfoMap [] m = m"
| "validatorInfoMap (validator # rest) m =
     validatorInfoMap rest (m(ConsensusAddress validator \<mapsto> validator))"

definition statusValue :: "string \<Rightarrow> rat" where
  "statusValue validatorStatus =
     (if validatorStatus = ''BOND_STATUS_BONDED'' then 3
      else if validatorStatus = ''BOND_STATUS_UNBONDING'' then 2
      else if validatorStatus = ''BOND_STATUS_UNBONDED'' then 1
      else 0)"

definition validatorMetrics ::
    "Node \<Rightarrow> string \<Rightarrow> string \<Rightarrow> (string \<rightharpoonup> ValidatorInfo) \<Rightarrow> string \<Rightarrow> ValidatorStat
     \<Rightarrow> Metric list" where
  "validatorMetrics node chainID latestBlockHeight infoMap validatorAddr stats =
     (let validatorActive = validatorActiveStatus node latestBlockHeight validatorAddr;
          missed = reportedMissedBlocks validatorActive stats;
          moniker = (case infoMap validatorAddr of None \<Rightarrow> ''Unknown'' | Some info \<Rightarrow> Moniker info);
          validatorStatus =
            (case infoMap validatorAddr of None \<Rightarrow> ''UNBONDED'' | Some info \<Rightarrow> Status info);
          jailed = (case infoMap validatorAddr of None \<Rightarrow> False | Some info \<Rightarrow> Jailed info)
      in [newMetric ''cosmos_validator_missed_blocks'' (float64 missed)
            [chainID, validatorAddr, moniker],
          newMetric ''cosmos_validator_active'' validatorActive
            [chainID, validatorAddr, moniker]]
         @ validatorDetailGauges node validatorAddr moniker
         @ [newMetric ''cosmos_validators_rank'' 0 [chainID, validatorAddr, moniker],
            newMetric ''cosmos_validator_status'' (statusValue validatorStatus)
              [chainID, validatorAddr, moniker],
            newMetric ''cosmos_validator_jailed_status'' (if jailed then 1 else 0)
              [chainID, validatorAddr, moniker]])"

text \<open>
  The loop \<open>for validatorAddr, stats := range validatorStats\<close>. Go visits the keys of a
  map in no fixed order; the keys are the distinct configured addresses, visited here in
  the order of their first occurrence in the configuration.
\<close>

definition allValidatorMetrics ::
    "Node \<Rightarrow> Chain \<Rightarrow> string \<Rightarrow> (string \<rightharpoonup> ValidatorInfo) \<Rightarrow> ValidatorStats \<Rightarrow> Metric list" where
  "allValidatorMetrics node chain latestBlockHeight infoMap validatorStats =
     concat (map (\<lambda>validatorAddr.
                    case validatorStats validatorAddr of
                      None \<Rightarrow> []
                    | Some stats \<Rightarrow>
                        validatorMetrics node (ChainID chain) latestBlockHeight infoMap
                          validatorAddr stats)
                 (remdups (Validators chain)))"

definition proposalMetrics :: "Chain \<Rightarrow> ValidatorStats \<Rightarrow> Metric list" where
  "proposalMetrics chain validatorStats =
     (if length (Validators chain) > 0
      then (case validatorStats (hd (Validators chain)) of
              None \<Rightarrow> []
            | Some stats \<Rightarrow>
                [newMetric ''cometbft_consensus_proposal_chain''
                   (float64 (proposals stats)) [ChainID chain]])
      else [])"

subsection \<open>collectCosmosMetrics\<close>

text \<open>
  The block-time section after a successful status fetch: the wall-clock gauge, the
  update of the calculator when the height parses, and the two gauges emitted when the
  average and the latest interval are positive.
\<close>

definition blockTimeSection ::
    "BlockTimeCalculator \<Rightarrow> string \<Rightarrow> string \<Rightarrow> Time
     \<Rightarrow> go_panic + (BlockTimeCalculator \<times> Metric list)" where
  "blockTimeSection btc chainID latestBlockHeight currentTime =
     (let btc1 = (case ParseInt latestBlockHeight of
                    None \<Rightarrow> btc
                  | Some height \<Rightarrow> UpdateBlockTime btc height currentTime)
      in case GetAverageBlockTime btc1 of
           Inl p \<Rightarrow> Inl p
         | Inr avgBlockTime \<Rightarrow>
             (case GetLatestBlockTime btc1 of
                Inl p \<Rightarrow> Inl p
              | Inr timeSinceLastBlock \<Rightarrow>
                  Inr (btc1,
                       [newMetric ''cosmos_block_time'' (float64 (Unix currentTime)) [chainID]]
                       @ (if avgBlockTime > 0
                          then [newMetric ''cosmos_avg_block_time'' (Seconds avgBlockTime) [chainID]]
                          else [])
                       @ (if timeSinceLastBlock > 0
                          then [newMetric ''cosmos_time_since_last_block''
                                  (Seconds timeSinceLastBlock) [chainID]]
                          else []))))"

text \<open>
  The result is the collector with its calculator updated, the metrics sent to the
  channel in order, and the returned error (\<open>None\<close> for \<open>nil\<close>).
\<close>

definition collectCosmosMetrics ::
    "UnifiedCollector \<Rightarrow> Time \<Rightarrow> go_panic + (UnifiedCollector \<times> Metric list \<times> error option)" where
  "collectCosmosMetrics c currentTime =
     (case GetStatus (client c) of
        Inl err \<Rightarrow> Inr (c, [], Some err)
      | Inr latestBlockHeight \<Rightarrow>
          (case blockTimeSection (blockTimeCalculator c) (ChainID (cfg c)) latestBlockHeight
                  currentTime of
             Inl p \<Rightarrow> Inl p
           | Inr (btc1, blockTimeMetrics) \<Rightarrow>
               (let c1 = c\<lparr>blockTimeCalculator := btc1\<rparr>;
                    validatorStats = windowStats (client c) (cfg c) latestBlockHeight;
                    height = (case ParseInt latestBlockHeight of None \<Rightarrow> 0 | Some h \<Rightarrow> h);
                    emitted =
                      blockTimeMetrics
                      @ validatorStatisticsMetrics (ChainID (cfg c))
                          (latestSignatureCounts (client c) latestBlockHeight)
                      @ supplyAndParamGauges (client c)
                      @ tenderdutyMetrics (ChainID (cfg c)) height
                          (firstValidatorSummary (client c) (cfg c) latestBlockHeight
                             validatorStats)
                in case GetValidators (client c) of
                     Inl err \<Rightarrow> Inr (c1, emitted, Some err)
                   | Inr validators \<Rightarrow>
                       Inr (c1,
                            emitted
                            @ allValidatorMetrics (client c) (cfg c) latestBlockHeight
                                (validatorInfoMap validators Map.empty) validatorStats
                            @ proposalMetrics (cfg c) validatorStats,
                            None))))"

section \<open>util.EthereumClient\<close>

text \<open>
  The client posts JSON-RPC requests to \<open>RPCURL\<close>, with an \<open>Authorization\<close> header when
  \<open>JWTSecret\<close> is not empty. Within one scrape the endpoint is taken as a fixed set of
  answers: for each method the string the result unmarshals to, or the error of the
  request, of the response or of the unmarshalling. A \<open>Network\<close> gives the endpoint that
  answers at a URL to a secret.
\<close>

record EthereumNode =
  blockNumberAnswer :: "error + string"
  balanceAnswer :: "string \<Rightarrow> error + string"
  callAnswer :: "string \<Rightarrow> string \<Rightarrow> error + string"

type_synonym Network = "string \<Rightarrow> string \<Rightarrow> EthereumNode"

record EthereumClient =
  clientRPCURL :: string
  clientJWTSecret :: string

definition NewEthereumClient :: "string \<Rightarrow> EthereumClient" where
  "NewEthereumClient rpcURL = \<lparr>clientRPCURL = rpcURL, clientJWTSecret = []\<rparr>"

definition NewEthereumClientWithJWT :: "string \<Rightarrow> string \<Rightarrow> EthereumClient" where
  "NewEthereumClientWithJWT rpcURL jwtSecret =
     \<lparr>clientRPCURL = rpcURL, clientJWTSecret = jwtSecret\<rparr>"

definition endpoint :: "Network \<Rightarrow> EthereumClient \<Rightarrow> EthereumNode" where
  "endpoint network ethClient = network (clientRPCURL ethClient) (clientJWTSecret ethClient)"

definition GetBlockNumber :: "Network \<Rightarrow> EthereumClient \<Rightarrow> error + string" where
  "GetBlockNumber network ethClient = blockNumberAnswer (endpoint network ethClient)"

definition GetBalance :: "Network \<Rightarrow> EthereumClient \<Rightarrow> string \<Rightarrow> error + string" where
  "GetBalance network ethClient address = balanceAnswer (endpoint network ethClient) address"

definition CallContract ::
    "Network \<Rightarrow> EthereumClient \<Rightarrow> string \<Rightarrow> string \<Rightarrow> error + string" where
  "CallContract network ethClient to calldata =
     callAnswer (endpoint network ethClient) to calldata"

text \<open>\<open>fmt.Errorf("...: %w", err)\<close> prefixes the message of the wrapped error.\<close>

fun wrapError :: "string \<Rightarrow> error \<Rightarrow> error" where
  "wrapError annotation (Error message) = Error (annotation @ message)"

definition stakingContractAddress :: string where
  "stakingContractAddress = ''0xea224dBB52F57752044c0C86aD50930091F561B9''"

text \<open>
  The four counting getters call the contract, and parse the result after its first two
  bytes only when it is longer than two bytes, so that the slice \<open>result[2:]\<close> is within
  bounds; \<open>getter\<close> is the name that appears in the error messages.
\<close>

definition contractCount ::
    "Network \<Rightarrow> EthereumClient \<Rightarrow> string \<Rightarrow> string \<Rightarrow> (string \<Rightarrow> int option)
     \<Rightarrow> error + int" where
  "contractCount network ethClient functionSelector getter parse =
     (case CallContract network ethClient stakingContractAddress functionSelector of
        Inl err \<Rightarrow> Inl (wrapError (''failed to call '' @ getter @ '': '') err)
      | Inr result \<Rightarrow>
          (case (if length result > 2 then parse (drop 2 result) else None) of
             Some val \<Rightarrow> Inr val
           | None \<Rightarrow> Inl (Error (''failed to parse '' @ getter @ '' result''))))"

definition GetTotalValidators :: "Network \<Rightarrow> EthereumClient \<Rightarrow> error + int" where
  "GetTotalValidators network ethClient =
     contractCount network ethClient ''0x18160ddd'' ''totalValidators'' ParseIntHex"

definition GetActiveValidators :: "Network \<Rightarrow> EthereumClient \<Rightarrow> error + int" where
  "GetActiveValidators network ethClient =
     contractCount network ethClient ''0x8b5a9c0d'' ''activeValidators'' ParseIntHex"

definition GetStakingPool :: "Network \<Rightarrow> EthereumClient \<Rightarrow> error + string" where
  "GetStakingPool network ethClient =
     (case CallContract network ethClient stakingContractAddress ''0x8b5a9c0d'' of
        Inl err \<Rightarrow> Inl (wrapError ''failed to call stakingPool: '' err)
      | Inr result \<Rightarrow> Inr result)"

definition GetValidatorCount :: "Network \<Rightarrow> EthereumClient \<Rightarrow> error + int" where
  "GetValidatorCount network ethClient =
     contractCount network ethClient ''0x8b5a9c0d'' ''validatorCount'' (ParseUintHex 32)"

definition GetMaxValidatorCount :: "Network \<Rightarrow> EthereumClient \<Rightarrow> error + int" where
  "GetMaxValidatorCount network ethClient =
     contractCount network ethClient ''0x8b5a9c0d'' ''maxValidatorCount'' (ParseUintHex 32)"

section \<open>collectEthereumMetrics and Collect\<close>

text \<open>
  The methods of \<open>Logger\<close> have empty bodies. The model records the calls: the level, the
  message and the arguments that follow it.
\<close>

datatype LogArg = StringArg string | ErrorArg error | IntArg int

datatype LogCall =
    LogInfo string "LogArg list"
  | LogWarn string "LogArg list"
  | LogError string "LogArg list"

text \<open>
  A section of the function sends metrics to the channel and calls the logger, or
  panics; \<open>andThen\<close> runs one section after another.
\<close>

type_synonym Emitted = "Metric list \<times> LogCall list"

definition andThen :: "go_panic + Emitted \<Rightarrow> go_panic + Emitted \<Rightarrow> go_panic + Emitted" where
  "andThen first rest =
     (case first of
        Inl p \<Rightarrow> Inl p
      | Inr (metrics, calls) \<Rightarrow>
          (case rest of
             Inl p \<Rightarrow> Inl p
           | Inr (metrics', calls') \<Rightarrow> Inr (metrics @ metrics', calls @ calls')))"

definition ethBlockNumberSection ::
    "Network \<Rightarrow> EthereumClient \<Rightarrow> string \<Rightarrow> go_panic + Emitted" where
  "ethBlockNumberSection network ethClient chainID =
     (case GetBlockNumber network ethClient of
        Inr blockNumber \<Rightarrow>
          (case sliceFrom blockNumber 2 of
             Inl p \<Rightarrow> Inl p
           | Inr digits \<Rightarrow>
               (case ParseIntHex digits of
                  Some blockNum \<Rightarrow>
                    Inr ([newMetric ''eth_block_number'' (float64 blockNum) [chainID]], [])
                | None \<Rightarrow> Inr ([], [])))
      | Inl err \<Rightarrow>
          Inr ([], [LogError ''Failed to get Ethereum block number''
                      [StringArg ''error'', ErrorArg err]]))"

definition ethStakingContractSection ::
    "Network \<Rightarrow> EthereumClient \<Rightarrow> string \<Rightarrow> string \<Rightarrow> go_panic + Emitted" where
  "ethStakingContractSection network ethClient chainID stakingContract =
     (case GetBalance network ethClient stakingContract of
        Inr balance \<Rightarrow>
          Inr ([newMetric ''eth_staking_contract'' 1 [chainID, stakingContract]], [])
      | Inl err \<Rightarrow>
          Inr ([newMetric ''eth_staking_contract'' 0 [chainID, stakingContract]],
               [LogError ''Failed to get staking contract status''
                  [StringArg ''error'', ErrorArg err]]))"

fun ethValidatorBalanceSection ::
    "Network \<Rightarrow> EthereumClient \<Rightarrow> string \<Rightarrow> EthereumWallet list \<Rightarrow> go_panic + Emitted" where
  "ethValidatorBalanceSection network ethClient chainID [] = Inr ([], [])"
| "ethValidatorBalanceSection network ethClient chainID (ethAddr # ethAddrs) =
     andThen
       (case GetBalance network ethClient (Address ethAddr) of
          Inr balance \<Rightarrow>
            (case sliceFrom balance 2 of
               Inl p \<Rightarrow> Inl p
             | Inr digits \<Rightarrow>
                 (case ParseIntHex digits of
                    Some bal \<Rightarrow>
                      Inr ([newMetric ''eth_validator_balance'' (float64 bal)
                              [chainID, Address ethAddr, ''unknown'']], [])
                  | None \<Rightarrow> Inr ([], [])))
        | Inl err \<Rightarrow>
            Inr ([], [LogError ''Failed to get Ethereum address balance''
                        [StringArg ''address'', StringArg (Address ethAddr),
                         StringArg ''error'', ErrorArg err]]))
       (ethValidatorBalanceSection network ethClient chainID ethAddrs)"

text \<open>
  A count read from the contract: the gauge and an \<open>Info\<close> call, or an \<open>Error\<close> call.
\<close>

definition contractGauge ::
    "error + int \<Rightarrow> string \<Rightarrow> string \<Rightarrow> string \<Rightarrow> string \<Rightarrow> string \<Rightarrow> go_panic + Emitted" where
  "contractGauge answer metricName chainID retrieved argName failed =
     (case answer of
        Inr count \<Rightarrow>
          Inr ([newMetric metricName (float64 count) [chainID]],
               [LogInfo retrieved [StringArg argName, IntArg count]])
      | Inl err \<Rightarrow> Inr ([], [LogError failed [StringArg ''error'', ErrorArg err]]))"

definition ethStakingPoolSection ::
    "Network \<Rightarrow> EthereumClient \<Rightarrow> string \<Rightarrow> go_panic + Emitted" where
  "ethStakingPoolSection network ethClient chainID =
     (case GetStakingPool network ethClient of
        Inr stakingPool \<Rightarrow>
          (case sliceFrom stakingPool 2 of
             Inl p \<Rightarrow> Inl p
           | Inr digits \<Rightarrow>
               (case ParseIntHex digits of
                  Some poolBalance \<Rightarrow>
                    Inr ([newMetric ''eth_staking_pool'' (float64 poolBalance) [chainID]],
                         [LogInfo ''Retrieved staking pool''
                            [StringArg ''balance'', IntArg poolBalance]])
                | None \<Rightarrow> Inr ([], [])))
      | Inl err \<Rightarrow>
          Inr ([], [LogError ''Failed to get staking pool'' [StringArg ''error'', ErrorArg err]]))"

text \<open>
  \<open>collectEthereumMetrics\<close>: the metrics sent to the channel in order, the calls to the
  logger and the returned error, or the panic. The \<open>else\<close> branch that creates the client
  reads \<open>c.ethereumConfig.RPCURL\<close>, also when \<open>c.ethereumConfig\<close> is \<open>nil\<close>.
\<close>

definition collectEthereumMetrics ::
    "UnifiedCollector \<Rightarrow> Network \<Rightarrow> go_panic + (Metric list \<times> LogCall list \<times> error option)" where
  "collectEthereumMetrics c network =
     (if ChainID (cfg c) \<noteq> ''0g-galileo-testnet'' then Inr ([], [], None)
      else case ethereumConfig c of
             None \<Rightarrow> Inl NilPointerDereference
           | Some config \<Rightarrow>
               (let chainID = ChainID (cfg c);
                    ethClient =
                      (if JWTSecret config \<noteq> []
                       then NewEthereumClientWithJWT (RPCURL config) (JWTSecret config)
                       else NewEthereumClient (RPCURL config));
                    created =
                      (if JWTSecret config \<noteq> []
                       then LogInfo ''Using Ethereum RPC with JWT authentication'' []
                       else LogWarn ''Using Ethereum RPC without JWT authentication'' [])
                in case
                     andThen (Inr ([], [created]))
                    (andThen (ethBlockNumberSection network ethClient chainID)
                    (andThen (ethStakingContractSection network ethClient chainID
                                (StakingContract config))
                    (andThen (ethValidatorBalanceSection network ethClient chainID
                                (EthereumAddresses config))
                    (andThen (contractGauge (GetTotalValidators network ethClient)
                                ''eth_total_validators'' chainID
                                ''Retrieved total validators'' ''count''
                                ''Failed to get total validators'')
                    (andThen (contractGauge (GetActiveValidators network ethClient)
                                ''eth_active_validators'' chainID
                                ''Retrieved active validators'' ''count''
                                ''Failed to get active validators'')
                    (andThen (ethStakingPoolSection network ethClient chainID)
                    (andThen (contractGauge (GetValidatorCount network ethClient)
                                ''eth_validator_count'' chainID
                                ''Retrieved validator count'' ''count''
                                ''Failed to get validator count'')
                             (contractGauge (GetMaxValidatorCount network ethClient)
                                ''eth_max_validators'' chainID
                                ''Retrieved max validators'' ''max''
                                ''Failed to get max validators''))))))))
                   of
                     Inl p \<Rightarrow> Inl p
                   | Inr (metrics, calls) \<Rightarrow> Inr (metrics, calls, None)))"

text \<open>
  \<open>Collect\<close> runs the two paths as goroutines of an errgroup, both sending to the channel
  \<open>ch\<close>, and logs the error that \<open>Wait\<close> returns once both have returned: the first error
  that is not \<open>nil\<close>. The paths share no state that either writes. The channel receives
  the metrics of each path in that path's order, interleaved in any way: \<open>sink\<close> is the set
  of the sequences it may receive. \<open>ethereumLog\<close> holds the calls to the logger made by
  the Ethereum path and \<open>coordinatorLog\<close> the call made by \<open>Collect\<close>; the two calls of the
  Cosmos path are not recorded. A goroutine of the group that panics is not recovered:
  the panic ends the process, and the scrape does not return. The two errors given to
  \<open>Wait\<close> are those of the Cosmos and of the Ethereum path; the second is always \<open>nil\<close>.
\<close>

record Scrape =
  collector :: UnifiedCollector
  sink :: "Metric list set"
  ethereumLog :: "LogCall list"
  coordinatorLog :: "LogCall list"

definition Wait :: "error option \<Rightarrow> error option \<Rightarrow> error option" where
  "Wait first second = (case first of Some err \<Rightarrow> Some err | None \<Rightarrow> second)"

definition Collect :: "UnifiedCollector \<Rightarrow> Network \<Rightarrow> Time \<Rightarrow> go_panic + Scrape" where
  "Collect c network currentTime =
     (case collectCosmosMetrics c currentTime of
        Inl p \<Rightarrow> Inl p
      | Inr (c1, cosmosMetrics, cosmosErr) \<Rightarrow>
          (case collectEthereumMetrics c network of
             Inl p \<Rightarrow> Inl p
           | Inr (ethereumMetrics, calls, ethereumErr) \<Rightarrow>
               Inr \<lparr>collector = c1,
                    sink = shuffles cosmosMetrics ethereumMetrics,
                    ethereumLog = calls,
                    coordinatorLog =
                      (case Wait cosmosErr ethereumErr of
                         None \<Rightarrow> []
                       | Some err \<Rightarrow>
                           [LogError ''Error collecting metrics''
                              [StringArg ''error'', ErrorArg err]])\<rparr>))"

section \<open>Notions used to state the properties\<close>

text \<open>
  \<open>flagsOf V b\<close> lists the flags of the entries of validator \<open>V\<close> in block \<open>b\<close>, in the
  order of the signature list; \<open>counters\<close> are the four liveness counters of an entry.
\<close>

definition flagsOf :: "string \<Rightarrow> Block \<Rightarrow> int list" where
  "flagsOf V b = map BlockIDFlag (filter (\<lambda>sig. ValidatorAddress sig = V) (Signatures b))"

definition counters :: "ValidatorStat \<Rightarrow> int \<times> int \<times> int \<times> int" where
  "counters s = (signedBlocks s, missedBlocks s, consecutiveMissed s, maxConsecutiveMissed s)"

text \<open>
  An answer of the endpoint is short when it is a string of fewer than two bytes;
  \<open>clientOf\<close> is the client that \<open>collectEthereumMetrics\<close> creates from a configuration.
\<close>

definition shortAnswer :: "error + string \<Rightarrow> bool" where
  "shortAnswer answer = (case answer of Inl err \<Rightarrow> False | Inr result \<Rightarrow> length result < 2)"

definition clientOf :: "Ethereum \<Rightarrow> EthereumClient" where
  "clientOf config =
     (if JWTSecret config \<noteq> []
      then NewEthereumClientWithJWT (RPCURL config) (JWTSecret config)
      else NewEthereumClient (RPCURL config))"

section \<open>Examples\<close>

text \<open>Concrete calculators, configurations and node answers on which the properties are exercised.\<close>

definition steadyHistory :: "Duration list" where
  "steadyHistory = [6000000000, 6100000000, 5900000000, 6000000000, 6200000000,
                    6000000000, 5800000000, 6000000000, 6100000000, 7000000000]"

definition calculatorWith :: "Duration list \<Rightarrow> BlockTimeCalculator" where
  "calculatorWith history =
     \<lparr>lastBlockTime = 1700000000000000000, lastBlockHeight = 1000,
      blockTimeHistory = history, maxHistorySize = 100\<rparr>"

text \<open>
  Two runs of observations with increasing heights. In the first the calculator sees the
  zero \<open>time.Time\<close> before a wall-clock instant, so that the first interval saturates at
  the greatest \<open>Duration\<close>, and then an instant two nanoseconds earlier, repeated. In the
  second the intervals alternate between two values of about 156 and 260 days.
\<close>

definition saturatedObservations :: "(int \<times> Time) list" where
  "saturatedObservations =
     (1, zeroTime) # (2, 1700000000000000000)
       # map (\<lambda>height. (height, 1699999999999999998)) [3, 4, 5, 6, 7, 8, 9, 10, 11]"

definition roundedObservations :: "(int \<times> Time) list" where
  "roundedObservations =
     [(1, 0),
      (2, 13510798882111489), (3, 36028797018963970),
      (4, 49539595901075459), (5, 72057594037927940),
      (6, 85568392920039429), (7, 108086391056891910),
      (8, 121597189939003399), (9, 144115188075855880),
      (10, 157625986957967369), (11, 180143985094819850)]"

definition signatureOf :: "string \<Rightarrow> int \<Rightarrow> Signature" where
  "signatureOf validatorAddr flag = \<lparr>BlockIDFlag = flag, ValidatorAddress = validatorAddr\<rparr>"

definition exampleChain :: Chain where
  "exampleChain = \<lparr>ChainID = ''0g-galileo-testnet'', Validators = [''VAL1'', ''VAL2'']\<rparr>"

definition nodeWith :: "error + string \<Rightarrow> (int option \<Rightarrow> error + Block) \<Rightarrow> Node" where
  "nodeWith status blocks =
     \<lparr>statusAnswer = status, blockAnswer = blocks,
      validatorsAnswer = Inr [], supplyAndParamGauges = [],
      validatorDetailGauges = (\<lambda>validatorAddr moniker. [])\<rparr>"

text \<open>Heights 996 to 1000 are served; VAL1 signs the even heights, VAL2 all of them.\<close>

definition alternatingBlocks :: "int option \<Rightarrow> error + Block" where
  "alternatingBlocks query =
     (case query of
        None \<Rightarrow> Inl (Error ''no height'')
      | Some h \<Rightarrow>
          if 996 \<le> h \<and> h \<le> 1000
          then Inr \<lparr>ProposerAddress = ''VAL2'',
                    Signatures = [signatureOf ''VAL1'' (if even h then 4 else 5),
                                  signatureOf ''VAL2'' 4]\<rparr>
          else Inl (Error ''height not available''))"

definition alternatingNode :: Node where
  "alternatingNode = nodeWith (Inr ''1000'') alternatingBlocks"

text \<open>Height 3 is served with a COMMIT entry of VAL1, height 2 fails, height 1 is served
  without any entry of VAL1.\<close>

definition partialBlocks :: "int option \<Rightarrow> error + Block" where
  "partialBlocks query =
     (if query = Some 3
      then Inr \<lparr>ProposerAddress = ''VAL1'',
                Signatures = [signatureOf ''VAL1'' 4, signatureOf ''VAL2'' 4]\<rparr>
      else if query = Some 1
      then Inr \<lparr>ProposerAddress = ''VAL2'', Signatures = [signatureOf ''VAL2'' 4]\<rparr>
      else Inl (Error ''height not available''))"

definition partialNode :: Node where
  "partialNode = nodeWith (Inr ''3'') partialBlocks"

text \<open>Only the latest height 7 is served: VAL1 is ABSENT there, VAL2 signs.\<close>

definition absentBlocks :: "int option \<Rightarrow> error + Block" where
  "absentBlocks query =
     (if query = Some 7
      then Inr \<lparr>ProposerAddress = ''VAL2'',
                Signatures = [signatureOf ''VAL1'' 5, signatureOf ''VAL2'' 4]\<rparr>
      else Inl (Error ''height not available''))"

definition absentNode :: Node where
  "absentNode = nodeWith (Inr ''7'') absentBlocks"

definition rawStat :: ValidatorStat where
  "rawStat = \<lparr>signedBlocks = 90, missedBlocks = 10, consecutiveMissed = 1,
              maxConsecutiveMissed = 4, proposals = 2\<rparr>"

text \<open>The latest height 42 holds ten signatures, seven COMMIT and three ABSENT.\<close>

definition tenSignatures :: "int option \<Rightarrow> error + Block" where
  "tenSignatures query =
     (if query = Some 42
      then Inr \<lparr>ProposerAddress = ''VAL1'',
                Signatures = map (signatureOf ''VAL'') [4, 4, 5, 4, 4, 5, 4, 4, 5, 4]\<rparr>
      else Inl (Error ''height not available''))"

definition tenNode :: Node where
  "tenNode = nodeWith (Inr ''42'') tenSignatures"

definition downNode :: Node where
  "downNode = nodeWith (Inl (Error ''connection refused'')) (\<lambda>query. Inl (Error ''connection refused''))"

definition exampleEthereum :: Ethereum where
  "exampleEthereum =
     \<lparr>RPCURL = ''http://localhost:8545'', JWTSecret = [],
      StakingContract = ''0xea224dBB52F57752044c0C86aD50930091F561B9'',
      EthereumAddresses =
        [\<lparr>Address = ''0x30535EF0D596876C5DBFCF825D64134550AB4945'', Name = ''first''\<rparr>]\<rparr>"

definition exampleCollector :: "Node \<Rightarrow> UnifiedCollector" where
  "exampleCollector node =
     \<lparr>client = node, cfg = exampleChain, ethereumConfig = Some exampleEthereum,
      blockTimeCalculator = NewBlockTimeCalculator 100\<rparr>"

text \<open>
  An endpoint that cannot be reached, and one whose every result unmarshals to the empty
  string.
\<close>

definition unreachableEndpoint :: EthereumNode where
  "unreachableEndpoint =
     \<lparr>blockNumberAnswer = Inl (Error ''failed to make request''),
      balanceAnswer = (\<lambda>address. Inl (Error ''failed to make request'')),
      callAnswer = (\<lambda>to calldata. Inl (Error ''failed to make request''))\<rparr>"

definition emptyResultEndpoint :: EthereumNode where
  "emptyResultEndpoint =
     \<lparr>blockNumberAnswer = Inr [],
      balanceAnswer = (\<lambda>address. Inr []),
      callAnswer = (\<lambda>to calldata. Inr [])\<rparr>"

definition unreachableNetwork :: Network where
  "unreachableNetwork url secret = unreachableEndpoint"

definition emptyResultNetwork :: Network where
  "emptyResultNetwork url secret = emptyResultEndpoint"

section \<open>Properties of the block-time calculator\<close>

lemma wrap64_zero: "wrap64 0 = 0"
  by (simp add: wrap64_def)

lemma average_never_panics: "\<exists>d. GetAverageBlockTime btc = Inr d"
  by (simp add: GetAverageBlockTime_def div64_def)

lemma latest_never_panics: "\<exists>d. GetLatestBlockTime btc = Inr d"
  by (cases "blockTimeHistory btc") (simp_all add: GetLatestBlockTime_def index_def)

lemma stats_never_panics: "\<exists>r. GetBlockTimeStats btc = Inr r"
  by (cases "blockTimeHistory btc")
     (auto simp: GetBlockTimeStats_def index_def div64_def split: prod.splits)

lemma estimate_blocks_never_panics: "\<exists>n. EstimateBlocksInDuration btc d = Inr n"
  using average_never_panics [of btc]
  by (auto simp: EstimateBlocksInDuration_def div64_def)

lemma estimate_time_never_panics: "\<exists>t. EstimateTimeForBlocks btc n = Inr t"
  using average_never_panics [of btc]
  by (auto simp: EstimateTimeForBlocks_def)

subsection \<open>Stale observations\<close>

lemma update_fields:
  "lastBlockHeight (UpdateBlockTime s h t) = h"
  "lastBlockTime (UpdateBlockTime s h t) = t"
  "maxHistorySize (UpdateBlockTime s h t) = maxHistorySize s"
  by (simp_all add: UpdateBlockTime_def Let_def)

lemma update_stale_history:
  "height \<le> lastBlockHeight btc \<Longrightarrow>
   blockTimeHistory (UpdateBlockTime btc height blockTime) = blockTimeHistory btc"
  by (simp add: UpdateBlockTime_def)

text \<open>
  Claim C1, as stated: after at least one observation, an update whose height is not
  above the last recorded height leaves the whole state unchanged, the baseline
  \<open>(lastBlockHeight, lastBlockTime)\<close> included. The code assigns the baseline on every
  call: after the observation \<open>(10, 1000)\<close>, the stale observation \<open>(7, 2000)\<close> changes
  the state, and the stored height becomes 7.
\<close>

theorem stale_update_changes_baseline:
  "0 < lastBlockHeight (UpdateBlockTime (NewBlockTimeCalculator 100) 10 1000)
   \<and> 7 \<le> lastBlockHeight (UpdateBlockTime (NewBlockTimeCalculator 100) 10 1000)
   \<and> UpdateBlockTime (UpdateBlockTime (NewBlockTimeCalculator 100) 10 1000) 7 2000
       \<noteq> UpdateBlockTime (NewBlockTimeCalculator 100) 10 1000
   \<and> lastBlockHeight
        (UpdateBlockTime (UpdateBlockTime (NewBlockTimeCalculator 100) 10 1000) 7 2000) = 7
   \<and> lastBlockTime
        (UpdateBlockTime (UpdateBlockTime (NewBlockTimeCalculator 100) 10 1000) 7 2000) = 2000"
  by (simp add: UpdateBlockTime_def NewBlockTimeCalculator_def)

text \<open>
  Claim C1, amended: after at least one observation, an update whose height is not above
  the last recorded height appends no interval: the history, hence its length, the
  average, the latest interval and the statistics, and the capacity are unchanged; the
  stored baseline is replaced by the new observation.
\<close>

theorem stale_update_keeps_history:
  assumes "0 < lastBlockHeight btc" and "height \<le> lastBlockHeight btc"
  shows "UpdateBlockTime btc height blockTime
           = btc\<lparr>lastBlockTime := blockTime, lastBlockHeight := height\<rparr>
     \<and> blockTimeHistory (UpdateBlockTime btc height blockTime) = blockTimeHistory btc
     \<and> GetHistorySize (UpdateBlockTime btc height blockTime) = GetHistorySize btc
     \<and> GetAverageBlockTime (UpdateBlockTime btc height blockTime) = GetAverageBlockTime btc
     \<and> GetLatestBlockTime (UpdateBlockTime btc height blockTime) = GetLatestBlockTime btc
     \<and> GetBlockTimeStats (UpdateBlockTime btc height blockTime) = GetBlockTimeStats btc
     \<and> maxHistorySize (UpdateBlockTime btc height blockTime) = maxHistorySize btc"
proof -
  have hist: "blockTimeHistory (UpdateBlockTime btc height blockTime) = blockTimeHistory btc"
    using assms(2) by (rule update_stale_history)
  have upd: "UpdateBlockTime btc height blockTime
          = btc\<lparr>lastBlockTime := blockTime, lastBlockHeight := height\<rparr>"
    using assms(2) by (simp add: UpdateBlockTime_def)
  have "GetHistorySize (UpdateBlockTime btc height blockTime) = GetHistorySize btc"
    and "GetAverageBlockTime (UpdateBlockTime btc height blockTime) = GetAverageBlockTime btc"
    and "GetLatestBlockTime (UpdateBlockTime btc height blockTime) = GetLatestBlockTime btc"
    and "GetBlockTimeStats (UpdateBlockTime btc height blockTime) = GetBlockTimeStats btc"
    unfolding GetHistorySize_def GetAverageBlockTime_def GetLatestBlockTime_def
      GetBlockTimeStats_def hist
    by (rule refl)+
  with hist upd show ?thesis
    by (simp add: update_fields)
qed

theorem stale_update_keeps_history_witness:
  "0 < lastBlockHeight (UpdateBlockTime (UpdateBlockTime (NewBlockTimeCalculator 100) 10 1000) 11 1500)
   \<and> (11::int) \<le> lastBlockHeight
        (UpdateBlockTime (UpdateBlockTime (NewBlockTimeCalculator 100) 10 1000) 11 1500)
   \<and> blockTimeHistory
        (UpdateBlockTime
           (UpdateBlockTime (UpdateBlockTime (NewBlockTimeCalculator 100) 10 1000) 11 1500)
           11 2000) = [500]"
  using stale_update_keeps_history
    [of "UpdateBlockTime (UpdateBlockTime (NewBlockTimeCalculator 100) 10 1000) 11 1500" 11 2000]
  by (simp add: UpdateBlockTime_def NewBlockTimeCalculator_def TimeSub_def
      maxInt64_def minInt64_def)

subsection \<open>Empty history and zero average\<close>

text \<open>
  Claim C9: with an empty history the average, the latest interval and the statistics
  are zero; when the average is zero, \<open>EstimateBlocksInDuration\<close> returns 0 and
  \<open>EstimateTimeForBlocks\<close> the zero duration; and for every state and every argument
  each of these operations returns a value: none divides by zero or indexes out of range.
\<close>

theorem zero_results_and_no_panic:
  "(blockTimeHistory btc = [] \<longrightarrow>
      GetAverageBlockTime btc = Inr 0 \<and> GetLatestBlockTime btc = Inr 0
      \<and> GetBlockTimeStats btc = Inr (0, 0, 0))
   \<and> (GetAverageBlockTime btc = Inr 0 \<longrightarrow>
        EstimateBlocksInDuration btc duration = Inr 0
        \<and> EstimateTimeForBlocks btc blockCount = Inr 0)
   \<and> (\<exists>d. GetAverageBlockTime btc = Inr d)
   \<and> (\<exists>d. GetLatestBlockTime btc = Inr d)
   \<and> (\<exists>r. GetBlockTimeStats btc = Inr r)
   \<and> (\<exists>n. EstimateBlocksInDuration btc duration = Inr n)
   \<and> (\<exists>d. EstimateTimeForBlocks btc blockCount = Inr d)"
proof -
  have empty: "blockTimeHistory btc = [] \<longrightarrow>
      GetAverageBlockTime btc = Inr 0 \<and> GetLatestBlockTime btc = Inr 0
      \<and> GetBlockTimeStats btc = Inr (0, 0, 0)"
    by (simp add: GetAverageBlockTime_def GetLatestBlockTime_def GetBlockTimeStats_def)
  have zero: "GetAverageBlockTime btc = Inr 0 \<longrightarrow>
        EstimateBlocksInDuration btc duration = Inr 0
        \<and> EstimateTimeForBlocks btc blockCount = Inr 0"
    by (simp add: EstimateBlocksInDuration_def EstimateTimeForBlocks_def wrap64_zero)
  show ?thesis
    using empty zero average_never_panics latest_never_panics stats_never_panics
      estimate_blocks_never_panics estimate_time_never_panics
    by blast
qed

theorem zero_results_and_no_panic_witness:
  "blockTimeHistory (NewBlockTimeCalculator 100) = []
   \<and> GetAverageBlockTime (NewBlockTimeCalculator 100) = Inr 0
   \<and> GetLatestBlockTime (NewBlockTimeCalculator 100) = Inr 0
   \<and> GetBlockTimeStats (NewBlockTimeCalculator 100) = Inr (0, 0, 0)
   \<and> EstimateBlocksInDuration (NewBlockTimeCalculator 100) 60000000000 = Inr 0
   \<and> EstimateTimeForBlocks (NewBlockTimeCalculator 100) 25 = Inr 0"
proof -
  have h: "blockTimeHistory (NewBlockTimeCalculator 100) = []"
    by (simp add: NewBlockTimeCalculator_def)
  show ?thesis
    using h zero_results_and_no_panic [of "NewBlockTimeCalculator 100" 60000000000 25]
    by simp
qed

subsection \<open>The history after increasing heights\<close>

lemma newest_newest_append: "newest n (newest n xs @ ys) = newest n (xs @ ys)"
proof (cases "length xs \<le> n")
  case True
  then show ?thesis by (simp add: newest_def)
next
  case False
  then have "length xs + length ys - n = (length xs - n) + length ys" by simp
  moreover have "length xs - n + n = length xs" using False by simp
  ultimately show ?thesis using False by (simp add: newest_def add.commute)
qed

lemma newest_short: "length xs \<le> n \<Longrightarrow> newest n xs = xs"
  by (simp add: newest_def)

lemma update_fresh_history:
  assumes "0 < lastBlockHeight s" "lastBlockHeight s < h" "0 < maxHistorySize s"
    "int (length (blockTimeHistory s)) \<le> maxHistorySize s"
  shows "blockTimeHistory (UpdateBlockTime s h t)
         = newest (nat (maxHistorySize s)) (blockTimeHistory s @ [TimeSub t (lastBlockTime s)])"
proof (cases "int (length (blockTimeHistory s)) = maxHistorySize s")
  case True
  then have "Suc (length (blockTimeHistory s)) - nat (maxHistorySize s) = Suc 0" by simp
  then show ?thesis using assms True by (simp add: UpdateBlockTime_def Let_def newest_def)
next
  case False
  then have "Suc (length (blockTimeHistory s)) - nat (maxHistorySize s) = 0"
    using assms by simp
  then show ?thesis using assms False by (simp add: UpdateBlockTime_def Let_def newest_def)
qed

lemma length_newest: "length (newest n xs) = min n (length xs)"
  by (auto simp: newest_def)

lemma feed_history:
  assumes "0 < lastBlockHeight s" "0 < maxHistorySize s"
    "int (length (blockTimeHistory s)) \<le> maxHistorySize s"
    "sorted_wrt (<) (lastBlockHeight s # map fst obs)"
  shows "blockTimeHistory (feed s obs)
         = newest (nat (maxHistorySize s))
             (blockTimeHistory s @ intervals (lastBlockTime s # map snd obs))
       \<and> maxHistorySize (feed s obs) = maxHistorySize s"
  using assms
proof (induction obs arbitrary: s)
  case Nil
  then show ?case by (simp add: newest_short)
next
  case (Cons o1 obs)
  obtain h t where o1: "o1 = (h, t)" by (cases o1)
  let ?s1 = "UpdateBlockTime s h t"
  have lt: "lastBlockHeight s < h" using Cons.prems(4) o1 by simp
  have h1: "blockTimeHistory ?s1
         = newest (nat (maxHistorySize s)) (blockTimeHistory s @ [TimeSub t (lastBlockTime s)])"
    using update_fresh_history [OF Cons.prems(1) lt Cons.prems(2) Cons.prems(3)] .
  have len1: "int (length (blockTimeHistory ?s1)) \<le> maxHistorySize ?s1"
    using Cons.prems(2) by (simp add: h1 length_newest update_fields)
  have sorted1: "sorted_wrt (<) (lastBlockHeight ?s1 # map fst obs)"
    using Cons.prems(4) o1 by (simp add: update_fields)
  have pos1: "0 < lastBlockHeight ?s1" using Cons.prems(1) lt by (simp add: update_fields)
  have cap1: "0 < maxHistorySize ?s1" using Cons.prems(2) by (simp add: update_fields)
  from Cons.IH [OF pos1 cap1 len1 sorted1]
  have "blockTimeHistory (feed ?s1 obs)
        = newest (nat (maxHistorySize s))
            (newest (nat (maxHistorySize s)) (blockTimeHistory s @ [TimeSub t (lastBlockTime s)])
             @ intervals (t # map snd obs))"
    and "maxHistorySize (feed ?s1 obs) = maxHistorySize s"
    by (simp_all add: update_fields h1)
  then show ?case
    by (simp add: o1 newest_newest_append)
qed

lemma new_capacity:
  "maxHistorySize (NewBlockTimeCalculator m) = (if m \<le> 0 then 100 else m)"
  by (simp add: NewBlockTimeCalculator_def)

lemma feed_new_history:
  assumes "sorted_wrt (<) (map fst obs)" "\<forall>h \<in> set (map fst obs). 0 < h"
  shows "blockTimeHistory (feed (NewBlockTimeCalculator m) obs)
         = newest (nat (maxHistorySize (NewBlockTimeCalculator m))) (intervals (map snd obs))"
proof (cases obs)
  case Nil
  then show ?thesis by (simp add: NewBlockTimeCalculator_def newest_def)
next
  case (Cons o1 rest)
  obtain h t where o1: "o1 = (h, t)" by (cases o1)
  define cap where "cap = maxHistorySize (NewBlockTimeCalculator m)"
  define s1 where "s1 = UpdateBlockTime (NewBlockTimeCalculator m) h t"
  have cap: "0 < cap" by (simp add: cap_def new_capacity)
  have fields: "lastBlockTime s1 = t" "lastBlockHeight s1 = h" "maxHistorySize s1 = cap"
    by (simp_all add: s1_def cap_def update_fields)
  have hist: "blockTimeHistory s1 = []"
    by (simp add: s1_def UpdateBlockTime_def NewBlockTimeCalculator_def Let_def)
  have "0 < h" using assms(2) Cons o1 by simp
  moreover have "sorted_wrt (<) (h # map fst rest)" using assms(1) Cons o1 by simp
  ultimately have "blockTimeHistory (feed s1 rest)
         = newest (nat (maxHistorySize s1))
             (blockTimeHistory s1 @ intervals (lastBlockTime s1 # map snd rest))"
    using feed_history [of s1 rest] cap by (simp add: fields hist)
  then show ?thesis
    by (simp add: Cons o1 fields hist s1_def [symmetric] cap_def [symmetric])
qed

lemma length_intervals: "length (intervals ts) = length ts - 1"
  by (induction ts rule: intervals.induct) auto


lemma feed_last:
  "obs \<noteq> [] \<Longrightarrow>
   lastBlockHeight (feed s obs) = fst (last obs) \<and> lastBlockTime (feed s obs) = snd (last obs)"
proof (induction obs arbitrary: s)
  case Nil
  then show ?case by simp
next
  case (Cons o1 obs)
  obtain h t where o1: "o1 = (h, t)" by (cases o1)
  show ?case
  proof (cases "obs = []")
    case True
    then show ?thesis by (simp add: o1 update_fields)
  next
    case False
    then show ?thesis using Cons.IH [OF False, of "UpdateBlockTime s h t"] by (simp add: o1)
  qed
qed

lemma feed_capacity: "maxHistorySize (feed s obs) = maxHistorySize s"
  by (induction s obs rule: feed.induct) (simp_all add: update_fields)

lemma update_at_capacity:
  assumes "0 < lastBlockHeight s" "lastBlockHeight s < h" "0 < maxHistorySize s"
    "int (length (blockTimeHistory s)) \<le> maxHistorySize s"
  shows "blockTimeHistory (UpdateBlockTime s h t)
         = (if int (length (blockTimeHistory s)) = maxHistorySize s
            then tl (blockTimeHistory s) @ [TimeSub t (lastBlockTime s)]
            else blockTimeHistory s @ [TimeSub t (lastBlockTime s)])"
proof (cases "blockTimeHistory s")
  case Nil
  then show ?thesis using assms by (simp add: UpdateBlockTime_def Let_def)
next
  case (Cons d ds)
  then show ?thesis using assms by (auto simp: UpdateBlockTime_def Let_def)
qed

text \<open>
  Claim C4, amended: for every sequence of \<open>n\<close> updates with strictly increasing
  positive heights fed to a calculator made by \<open>NewBlockTimeCalculator m\<close>, whose capacity
  is \<open>m\<close>, or 100 when \<open>m \<le> 0\<close>, the history holds the newest \<open>min (n - 1) capacity\<close>
  intervals between consecutive timestamps, oldest first; and a further update with a
  larger height appends its interval at the end, after dropping the oldest interval
  when the history is at capacity.
\<close>

theorem history_after_increasing_heights:
  assumes "sorted_wrt (<) (map fst obs)" and "\<forall>h \<in> set (map fst obs). 0 < h"
  shows "blockTimeHistory (feed (NewBlockTimeCalculator m) obs)
           = newest (nat (if m \<le> 0 then 100 else m)) (intervals (map snd obs))
     \<and> length (blockTimeHistory (feed (NewBlockTimeCalculator m) obs))
           = min (length obs - 1) (nat (if m \<le> 0 then 100 else m))
     \<and> (\<forall>h t. obs \<noteq> [] \<and> fst (last obs) < h \<longrightarrow>
           blockTimeHistory (UpdateBlockTime (feed (NewBlockTimeCalculator m) obs) h t)
           = (if length (blockTimeHistory (feed (NewBlockTimeCalculator m) obs))
                   = nat (if m \<le> 0 then 100 else m)
              then tl (blockTimeHistory (feed (NewBlockTimeCalculator m) obs))
                     @ [TimeSub t (snd (last obs))]
              else blockTimeHistory (feed (NewBlockTimeCalculator m) obs)
                     @ [TimeSub t (snd (last obs))]))"
proof -
  define s where "s = feed (NewBlockTimeCalculator m) obs"
  define cap where "cap = (if m \<le> 0 then 100 else m)"
  have cap_pos: "0 < cap" by (simp add: cap_def)
  have capacity: "maxHistorySize s = cap"
    by (simp add: s_def cap_def feed_capacity new_capacity)
  have hist: "blockTimeHistory s = newest (nat cap) (intervals (map snd obs))"
    using feed_new_history [OF assms, of m] by (simp add: s_def cap_def new_capacity)
  have len: "length (blockTimeHistory s) = min (length obs - 1) (nat cap)"
    by (simp add: hist length_newest length_intervals min.commute)
  have step: "blockTimeHistory (UpdateBlockTime s h t)
           = (if length (blockTimeHistory s) = nat cap
              then tl (blockTimeHistory s) @ [TimeSub t (snd (last obs))]
              else blockTimeHistory s @ [TimeSub t (snd (last obs))])"
    if "obs \<noteq> []" and "fst (last obs) < h" for h t
  proof -
    have last: "lastBlockHeight s = fst (last obs)" "lastBlockTime s = snd (last obs)"
      using feed_last [OF that(1), of "NewBlockTimeCalculator m"] by (simp_all add: s_def)
    have "fst (last obs) \<in> set (map fst obs)" using that(1) by simp
    then have pos: "0 < lastBlockHeight s" using assms(2) last(1) by metis
    have le: "int (length (blockTimeHistory s)) \<le> maxHistorySize s"
      using cap_pos by (simp add: len capacity)
    have eq: "(int (length (blockTimeHistory s)) = maxHistorySize s)
              = (length (blockTimeHistory s) = nat cap)"
      using cap_pos by (auto simp: capacity)
    have "blockTimeHistory (UpdateBlockTime s h t)
         = (if int (length (blockTimeHistory s)) = maxHistorySize s
            then tl (blockTimeHistory s) @ [TimeSub t (lastBlockTime s)]
            else blockTimeHistory s @ [TimeSub t (lastBlockTime s)])"
      using update_at_capacity [of s h t] pos that(2) cap_pos le
      by (simp add: last(1) capacity)
    then show ?thesis
      unfolding eq last(2) .
  qed
  show ?thesis
    using hist len step unfolding s_def cap_def by blast
qed


text \<open>
  Claim C4, as stated: after \<open>n\<close> updates with strictly increasing heights the history
  has length \<open>min (n - 1) capacity\<close>. The guard \<open>lastBlockHeight > 0\<close> takes a stored
  height of 0 for "no observation yet": after the three updates at heights 0, 1, 2 the
  history has length 1, not 2.
\<close>

theorem three_updates_from_height_zero:
  "sorted_wrt (<) (map fst [(0 :: int, 10 :: int), (1, 20), (2, 30)])
   \<and> length (blockTimeHistory (feed (NewBlockTimeCalculator 100) [(0, 10), (1, 20), (2, 30)]))
       = 1
   \<and> min (length [(0 :: int, 10 :: int), (1, 20), (2, 30)] - 1) (100 :: nat) = 2"
  by (simp add: NewBlockTimeCalculator_def UpdateBlockTime_def)

theorem history_after_increasing_heights_witness:
  "sorted_wrt (<) (map fst [(1 :: int, 10 :: int), (2, 20), (3, 35), (4, 55), (9, 56)])
   \<and> list_all (\<lambda>h. 0 < h) (map fst [(1 :: int, 10 :: int), (2, 20), (3, 35), (4, 55), (9, 56)])
   \<and> blockTimeHistory
        (feed (NewBlockTimeCalculator 2) [(1, 10), (2, 20), (3, 35), (4, 55), (9, 56)])
       = [20, 1]
   \<and> blockTimeHistory
        (UpdateBlockTime
           (feed (NewBlockTimeCalculator 2) [(1, 10), (2, 20), (3, 35), (4, 55), (9, 56)])
           12 60)
       = [1, 4]"
proof -
  have h1: "sorted_wrt (<) (map fst [(1 :: int, 10 :: int), (2, 20), (3, 35), (4, 55), (9, 56)])"
    by simp
  have h2: "\<forall>h \<in> set (map fst [(1 :: int, 10 :: int), (2, 20), (3, 35), (4, 55), (9, 56)]). (0::int) < h"
    by simp
  have sub: "TimeSub 20 10 = 10" "TimeSub 35 20 = 15" "TimeSub 55 35 = 20" "TimeSub 56 55 = 1"
    "TimeSub 60 56 = 4"
    by (simp_all add: TimeSub_def maxInt64_def minInt64_def)
  show ?thesis
    using h1 h2 history_after_increasing_heights [OF h1 h2, of 2]
    by (simp add: newest_def sub)
qed

subsection \<open>Stability\<close>

lemma bitLength_bounds:
  "0 < n \<Longrightarrow> 0 < bitLength n \<and> 2 ^ nat (bitLength n - 1) \<le> n \<and> n < 2 ^ nat (bitLength n)"
proof (induction n rule: bitLength.induct)
  case (1 n)
  have unfold: "bitLength n = 1 + bitLength (n div 2)"
    using "1.prems" by (subst bitLength.simps) simp
  show ?case
  proof (cases "n div 2 = 0")
    case True
    then have n1: "n = 1" using "1.prems" by presburger
    have "bitLength (n div 2) = 0" using True by (subst bitLength.simps) simp
    then have "bitLength n = 1" by (simp add: unfold)
    then show ?thesis unfolding n1 by simp
  next
    case False
    then have pos: "0 < n div 2" using "1.prems" by simp
    have "\<not> n \<le> 0" using "1.prems" by simp
    from "1.IH" [OF this pos]
    have k: "0 < bitLength (n div 2)"
      and lo: "2 ^ nat (bitLength (n div 2) - 1) \<le> n div 2"
      and hi: "n div 2 < 2 ^ nat (bitLength (n div 2))" by simp_all
    define k where "k = nat (bitLength (n div 2) - 1)"
    have kk: "nat (bitLength (n div 2)) = Suc k" using k by (simp add: k_def)
    have "nat (bitLength n - 1) = Suc k" "nat (bitLength n) = Suc (Suc k)"
      using k by (simp_all add: unfold k_def)
    moreover have "2 * 2 ^ k \<le> n" using lo unfolding k_def [symmetric] by presburger
    moreover have "n < 2 * (2 * 2 ^ k)"
    proof -
      have "n div 2 + 1 \<le> 2 * 2 ^ k" using hi unfolding kk by simp
      then show ?thesis by presburger
    qed
    ultimately show ?thesis using k by (simp add: unfold)
  qed
qed


lemma bitLength_powi:
  assumes "0 < n"
  shows "(2::rat) powi (bitLength n - 1) \<le> of_int n" and "of_int n < (2::rat) powi (bitLength n)"
proof -
  from bitLength_bounds [OF assms]
  have k: "0 < bitLength n" and lo: "2 ^ nat (bitLength n - 1) \<le> n"
    and hi: "n < 2 ^ nat (bitLength n)" by simp_all
  have "(of_int (2 ^ nat (bitLength n - 1)) :: rat) \<le> of_int n"
    using lo by (simp only: of_int_le_iff)
  then show "(2::rat) powi (bitLength n - 1) \<le> of_int n"
    using k by (simp add: power_int_def)
  have "(of_int n :: rat) < of_int (2 ^ nat (bitLength n))"
    using hi by (simp only: of_int_less_iff)
  then show "of_int n < (2::rat) powi (bitLength n)"
    using k by (simp add: power_int_def)
qed

lemma powi2_div: "(2::rat) powi x / 2 powi y = 2 powi (x - y)"
  using power_int_diff [of "2::rat" x y] by simp

lemma exponentOf_bounds:
  assumes "0 < q"
  shows "2 powi (exponentOf q) \<le> q" and "q < 2 powi (exponentOf q + 1)"
proof -
  obtain a b where ab: "quotient_of q = (a, b)" by (cases "quotient_of q")
  have b: "0 < b" using ab by (rule quotient_of_denom_pos)
  have q: "q = of_int a / of_int b" using ab by (rule quotient_of_div)
  have a: "0 < a" using assms b unfolding q by (simp add: zero_less_divide_iff)
  define d where "d = bitLength a - bitLength b"
  have bpos: "(0::rat) < of_int b" using b by simp
  have upper: "q < 2 powi (d + 1)"
  proof -
    have "of_int a < (2::rat) powi (bitLength a)" using bitLength_powi(2) [OF a] .
    moreover have "(2::rat) powi (bitLength b - 1) \<le> of_int b" using bitLength_powi(1) [OF b] .
    ultimately have "of_int a * (2::rat) powi (bitLength b - 1) < 2 powi (bitLength a) * of_int b"
      using a by (intro mult_less_le_imp_less) simp_all
    then have "of_int a / of_int b < (2::rat) powi (bitLength a) / 2 powi (bitLength b - 1)"
      using bpos by (simp add: field_simps)
    also have "\<dots> = 2 powi (d + 1)"
    proof -
      have eq: "bitLength a - (bitLength b - 1) = d + 1" by (simp add: d_def)
      show ?thesis
        using powi2_div [of "bitLength a" "bitLength b - 1"] unfolding eq .
    qed
    finally show ?thesis unfolding q .
  qed
  have lower: "2 powi (d - 1) \<le> q"
  proof -
    have "(2::rat) powi (bitLength a - 1) \<le> of_int a" using bitLength_powi(1) [OF a] .
    moreover have "of_int b \<le> (2::rat) powi (bitLength b)"
      using bitLength_powi(2) [OF b] by simp
    ultimately have "(2::rat) powi (bitLength a - 1) * of_int b \<le> of_int a * 2 powi (bitLength b)"
      using a b by (intro mult_mono) simp_all
    then have "(2::rat) powi (bitLength a - 1) / 2 powi (bitLength b) \<le> of_int a / of_int b"
      using bpos by (simp add: field_simps)
    moreover have "(2::rat) powi (bitLength a - 1) / 2 powi (bitLength b) = 2 powi (d - 1)"
    proof -
      have eq: "(bitLength a - 1) - bitLength b = d - 1" by (simp add: d_def)
      show ?thesis
        using powi2_div [of "bitLength a - 1" "bitLength b"] unfolding eq .
    qed
    ultimately show ?thesis unfolding q by simp
  qed
  have e: "exponentOf q = (if 2 powi d \<le> q then d else d - 1)"
    by (simp add: exponentOf_def ab d_def Let_def)
  show "2 powi (exponentOf q) \<le> q" using lower by (simp add: e)
  show "q < 2 powi (exponentOf q + 1)" using upper by (simp add: e not_le)
qed

lemma roundHalfEven_le: "x \<le> of_int m \<Longrightarrow> roundHalfEven x \<le> m"
proof -
  assume le: "x \<le> of_int m"
  have f: "\<lfloor>x\<rfloor> \<le> m" using le by (simp add: floor_le_iff)
  show ?thesis
  proof (cases "\<lfloor>x\<rfloor> = m")
    case True
    then have "x = of_int \<lfloor>x\<rfloor>" using le of_int_floor_le [of x] by simp
    then have "x - of_int \<lfloor>x\<rfloor> = 0" by simp
    then show ?thesis using True by (simp add: roundHalfEven_def Let_def)
  next
    case False
    then have "\<lfloor>x\<rfloor> + 1 \<le> m" using f by simp
    then show ?thesis by (simp add: roundHalfEven_def Let_def)
  qed
qed

lemma roundHalfEven_ge: "of_int m \<le> x \<Longrightarrow> m \<le> roundHalfEven x"
proof -
  assume "of_int m \<le> x"
  then have "m \<le> \<lfloor>x\<rfloor>" by (simp add: le_floor_iff)
  then show ?thesis by (simp add: roundHalfEven_def Let_def)
qed

lemma roundHalfEven_of_int: "roundHalfEven (of_int m) = m"
  by (simp add: roundHalfEven_def)


lemma powi2_mult: "(2::rat) powi x * 2 powi y = 2 powi (x + y)"
  using power_int_add [of "2::rat" x y] by simp

lemma powi2_pos: "(0::rat) < 2 powi x"
  by (simp add: zero_less_power_int)

lemma powi2_mult_eq: "x + y = z \<Longrightarrow> (2::rat) powi x * 2 powi y = 2 powi z"
  using powi2_mult [of x y] by simp

lemma powi2_le: "(2::rat) powi x \<le> 2 powi y \<longleftrightarrow> x \<le> y"
proof
  assume le: "(2::rat) powi x \<le> 2 powi y"
  show "x \<le> y"
  proof (rule ccontr)
    assume "\<not> x \<le> y"
    then have "y < x" by simp
    then have "(2::rat) powi y < 2 powi x" by (rule power_int_strict_increasing) simp
    with le show False by simp
  qed
next
  assume "x \<le> y"
  then show "(2::rat) powi x \<le> 2 powi y" by (rule power_int_increasing) simp
qed

lemma powi2_less: "(2::rat) powi x < 2 powi y \<longleftrightarrow> x < y"
  by (metis powi2_le less_le_not_le linorder_not_le)

lemma roundFloat64_pos:
  "0 < q \<Longrightarrow>
   roundFloat64 q
     = of_int (roundHalfEven (q * 2 powi (52 - exponentOf q))) * 2 powi (exponentOf q - 52)"
  by (simp add: roundFloat64_def Let_def)

lemma scaled_bounds:
  assumes "0 < q"
  shows "2 powi 52 \<le> q * 2 powi (52 - exponentOf q)"
    and "q * 2 powi (52 - exponentOf q) < 2 powi 53"
proof -
  define e where "e = exponentOf q"
  have lo: "2 powi e \<le> q" and hi: "q < 2 powi (e + 1)"
    using exponentOf_bounds [OF assms] by (simp_all add: e_def)
  have "(2::rat) powi 52 = 2 powi e * 2 powi (52 - e)"
    by (rule powi2_mult_eq [symmetric]) simp
  also have "\<dots> \<le> q * 2 powi (52 - e)"
    using lo powi2_pos [of "52 - e"] by (simp only: mult_le_cancel_right_pos)
  finally show "2 powi 52 \<le> q * 2 powi (52 - exponentOf q)" unfolding e_def .
  have "q * 2 powi (52 - e) < 2 powi (e + 1) * 2 powi (52 - e)"
    using hi powi2_pos [of "52 - e"] by (simp only: mult_less_cancel_right_pos)
  also have "\<dots> = 2 powi 53"
    by (rule powi2_mult_eq) simp
  finally show "q * 2 powi (52 - exponentOf q) < 2 powi 53" unfolding e_def .
qed

lemma roundFloat64_nonpos: "q \<le> 0 \<Longrightarrow> roundFloat64 q \<le> 0"
proof (cases "q = 0")
  case True
  then show ?thesis by (simp add: roundFloat64_def)
next
  case False
  assume "q \<le> 0"
  then have neg: "q < 0" using False by simp
  define e where "e = exponentOf \<bar>q\<bar>"
  have "(0::rat) \<le> \<bar>q\<bar> * 2 powi (52 - e)"
    using powi2_pos [of "52 - e"] by simp
  then have "0 \<le> roundHalfEven (\<bar>q\<bar> * 2 powi (52 - e))"
    using roundHalfEven_ge [of 0] by simp
  then have "(0::rat) \<le> of_int (roundHalfEven (\<bar>q\<bar> * 2 powi (52 - e))) * 2 powi (e - 52)"
    using powi2_pos [of "e - 52"] by simp
  moreover have "roundFloat64 q
      = - (of_int (roundHalfEven (\<bar>q\<bar> * 2 powi (52 - e))) * 2 powi (e - 52))"
    using neg by (simp add: roundFloat64_def Let_def e_def)
  ultimately show ?thesis by simp
qed

lemma roundFloat64_ge_half:
  assumes "1 / 2 \<le> q"
  shows "1 / 2 \<le> roundFloat64 q"
proof -
  have pos: "0 < q" using assms by simp
  define e where "e = exponentOf q"
  define n where "n = roundHalfEven (q * 2 powi (52 - e))"
  have res: "roundFloat64 q = of_int n * 2 powi (e - 52)"
    using roundFloat64_pos [OF pos] by (simp add: e_def n_def)
  have "(2::rat) powi (- 1) \<le> q" using assms by simp
  also have "q < 2 powi (e + 1)" using exponentOf_bounds(2) [OF pos] by (simp add: e_def)
  finally have "- 1 < e + 1" by (simp only: powi2_less)
  then have e: "- 1 \<le> e" by simp
  have "(of_int (2 ^ 52) :: rat) \<le> q * 2 powi (52 - e)"
    using scaled_bounds(1) [OF pos] by (simp add: e_def)
  then have "2 ^ 52 \<le> n" unfolding n_def by (rule roundHalfEven_ge)
  then have n: "(2::rat) powi 52 \<le> of_int n"
    using of_int_le_iff [of "2 ^ 52" n, where ?'a = rat] by simp
  have "(1 / 2 :: rat) = 2 powi (- 1)" by simp
  also have "\<dots> \<le> 2 powi e" using e by (simp only: powi2_le)
  also have "\<dots> = 2 powi 52 * 2 powi (e - 52)"
    by (rule powi2_mult_eq [symmetric]) simp
  also have "\<dots> \<le> of_int n * 2 powi (e - 52)"
    using n powi2_pos [of "e - 52"] by (simp only: mult_le_cancel_right_pos)
  finally show ?thesis unfolding res .
qed

lemma roundFloat64_lt_half:
  assumes pos: "0 < q" and below: "q * 2 ^ 54 \<le> 2 ^ 53 - 1"
  shows "roundFloat64 q < 1 / 2"
proof -
  define e where "e = exponentOf q"
  define n where "n = roundHalfEven (q * 2 powi (52 - e))"
  have res: "roundFloat64 q = of_int n * 2 powi (e - 52)"
    using roundFloat64_pos [OF pos] by (simp add: e_def n_def)
  have "q < 1 / 2" using below by simp
  then have "q < 2 powi (- 1)" by simp
  with exponentOf_bounds(1) [OF pos] have "(2::rat) powi e < 2 powi (- 1)"
    by (simp add: e_def)
  then have "e < - 1" by (simp only: powi2_less)
  then consider "e = - 2" | "e \<le> - 3" by linarith
  then show ?thesis
  proof cases
    case 1
    have "q * 2 powi (52 - e) \<le> of_int (2 ^ 53 - 1)" using below by (simp add: 1)
    then have "n \<le> 2 ^ 53 - 1" unfolding n_def by (rule roundHalfEven_le)
    then have "(of_int n :: rat) \<le> of_int (2 ^ 53 - 1)" by (simp only: of_int_le_iff)
    then have "(of_int n :: rat) * 2 powi (- 54) \<le> of_int (2 ^ 53 - 1) * 2 powi (- 54)"
      using powi2_pos [of "- 54"] by (simp only: mult_le_cancel_right_pos)
    also have "\<dots> < 1 / 2" by simp
    finally show ?thesis unfolding res 1 by simp
  next
    case 2
    have "q * 2 powi (52 - e) \<le> 2 powi 53"
      using scaled_bounds(2) [OF pos] by (simp add: e_def)
    then have "q * 2 powi (52 - e) \<le> of_int (2 ^ 53)" by simp
    then have "n \<le> 2 ^ 53" unfolding n_def by (rule roundHalfEven_le)
    then have "(of_int n :: rat) \<le> 2 powi 53"
      using of_int_le_iff [of n "2 ^ 53", where ?'a = rat] by simp
    then have "(of_int n :: rat) * 2 powi (e - 52) \<le> 2 powi 53 * 2 powi (e - 52)"
      using powi2_pos [of "e - 52"] by (simp only: mult_le_cancel_right_pos)
    also have "\<dots> = 2 powi (e + 1)"
      by (rule powi2_mult_eq) simp
    also have "\<dots> \<le> 2 powi (- 2)" using 2 by (simp only: powi2_le)
    also have "\<dots> < 1 / 2" by simp
    finally show ?thesis unfolding res .
  qed
qed


lemma float64_exact:
  assumes "\<bar>x\<bar> \<le> 2 ^ 53"
  shows "float64 x = of_int x"
proof (cases "x = 0")
  case True
  then show ?thesis by (simp add: float64_def roundFloat64_def)
next
  case False
  define q :: rat where "q = of_int \<bar>x\<bar>"
  define e where "e = exponentOf q"
  have pos: "0 < q" using False by (simp add: q_def)
  have abs: "\<bar>of_int x :: rat\<bar> = q" by (simp add: q_def)
  have lo: "2 powi e \<le> q" and hi: "q < 2 powi (e + 1)"
    using exponentOf_bounds [OF pos] by (simp_all add: e_def)
  have "1 \<le> \<bar>x\<bar>" using False by simp
  then have "(of_int 1 :: rat) \<le> of_int \<bar>x\<bar>" by (simp only: of_int_le_iff)
  then have q1: "(2::rat) powi 0 \<le> q" by (simp add: q_def)
  from q1 hi have "(2::rat) powi 0 < 2 powi (e + 1)" by (rule le_less_trans)
  then have "0 < e + 1" by (simp only: powi2_less)
  then have e0: "0 \<le> e" by simp
  have "(of_int \<bar>x\<bar> :: rat) \<le> of_int (2 ^ 53)" using assms by (simp only: of_int_le_iff)
  then have q53: "q \<le> 2 powi 53" by (simp add: q_def)
  from lo q53 have "(2::rat) powi e \<le> 2 powi 53" by (rule order_trans)
  then have e53: "e \<le> 53" by (simp only: powi2_le)
  have "\<exists>m. q * 2 powi (52 - e) = of_int m"
  proof (cases "e = 53")
    case True
    then have "q = 2 powi 53" using lo q53 by simp
    then have "q * 2 powi (52 - e) = of_int (2 ^ 52)" by (simp add: True)
    then show ?thesis by blast
  next
    case False
    then have "0 \<le> 52 - e" using e53 by simp
    then have "(2::rat) powi (52 - e) = of_int (2 ^ nat (52 - e))"
      by (simp add: power_int_def)
    then have "q * 2 powi (52 - e) = of_int (\<bar>x\<bar> * 2 ^ nat (52 - e))"
      by (simp add: q_def)
    then show ?thesis by blast
  qed
  then obtain m where m: "q * 2 powi (52 - e) = of_int m" by blast
  have "of_int m * (2::rat) powi (e - 52) = q * (2 powi (52 - e) * 2 powi (e - 52))"
    by (simp add: m [symmetric])
  also have "(2::rat) powi (52 - e) * 2 powi (e - 52) = 2 powi 0"
    by (rule powi2_mult_eq) simp
  finally have unscaled: "of_int m * (2::rat) powi (e - 52) = q" by simp
  have "roundFloat64 (of_int x) = sgn (of_int x) * (of_int m * 2 powi (e - 52))"
    using False
    by (simp add: roundFloat64_def Let_def abs e_def [symmetric] m roundHalfEven_of_int
        del: of_int_abs)
  also have "\<dots> = sgn (of_int x) * \<bar>of_int x :: rat\<bar>" by (simp only: unscaled abs)
  also have "\<dots> = of_int x" by (simp add: sgn_mult_abs del: of_int_abs)
  finally show ?thesis by (simp add: float64_def)
qed

lemma float64_small:
  "float64 0 = 0" "float64 1 = 1" "float64 3 = 3" "float64 7 = 7" "float64 10 = 10"
  by (simp_all add: float64_exact)

lemma quotient_below_half:
  assumes "0 < b" "b \<le> 2 ^ 53" and "(of_int a / of_int b :: rat) < 1 / 2"
  shows "(of_int a / of_int b :: rat) * 2 ^ 54 \<le> 2 ^ 53 - 1"
proof -
  have bpos: "(0::rat) < of_int b" using assms(1) by simp
  have "(of_int (2 * a) :: rat) < of_int b"
    using assms(3) bpos by (simp add: field_simps)
  then have "2 * a < b" by (simp only: of_int_less_iff)
  then have "a * 2 ^ 54 \<le> (2 ^ 53 - 1) * b" using assms(2) by simp
  then have "(of_int (a * 2 ^ 54) :: rat) \<le> of_int ((2 ^ 53 - 1) * b)"
    by (simp only: of_int_le_iff)
  then have "(of_int a :: rat) * 2 ^ 54 \<le> (2 ^ 53 - 1) * of_int b" by simp
  then show ?thesis using bpos by (simp add: field_simps)
qed

lemma divFloat64_below_half:
  assumes "b \<noteq> 0" "\<bar>b\<bar> \<le> 2 ^ 53"
  shows "divFloat64 (of_int a) (of_int b) < 1 / 2 \<longleftrightarrow> (of_int a / of_int b :: rat) < 1 / 2"
proof (cases "(of_int a / of_int b :: rat) < 1 / 2")
  case False
  then have "1 / 2 \<le> roundFloat64 (of_int a / of_int b)"
    using roundFloat64_ge_half [of "of_int a / of_int b"] by simp
  then show ?thesis using False by (simp add: divFloat64_def)
next
  case True
  have "roundFloat64 (of_int a / of_int b) < 1 / 2"
  proof (cases "(of_int a / of_int b :: rat) \<le> 0")
    case True
    then have "roundFloat64 (of_int a / of_int b) \<le> 0" by (rule roundFloat64_nonpos)
    then show ?thesis by simp
  next
    case False
    then have pos: "(0::rat) < of_int a / of_int b" by simp
    have "(of_int a / of_int b :: rat) * 2 ^ 54 \<le> 2 ^ 53 - 1"
    proof (cases "0 < b")
      case True
      then show ?thesis using quotient_below_half [of b a] assms(2) \<open>of_int a / of_int b < 1 / 2\<close>
        by simp
    next
      case False
      then have nb: "0 < - b" "- b \<le> 2 ^ 53" using assms by simp_all
      have eq: "(of_int (- a) / of_int (- b) :: rat) = of_int a / of_int b" by simp
      show ?thesis
        using quotient_below_half [OF nb, of "- a"] \<open>of_int a / of_int b < 1 / 2\<close>
        unfolding eq by simp
    qed
    with pos show ?thesis by (rule roundFloat64_lt_half)
  qed
  then show ?thesis using True by (simp add: divFloat64_def)
qed

lemma wrap64_small: "\<bar>x\<bar> \<le> 2 ^ 53 \<Longrightarrow> wrap64 x = x"
  by (simp add: wrap64_def)

lemma statsLoop_fold:
  "statsLoop (t, m, x) ds = (sumDurations t ds, fold min ds m, fold max ds x)"
proof (induction ds arbitrary: t m x)
  case Nil
  then show ?case by simp
next
  case (Cons d ds)
  have "(if d < m then d else m) = min d m" "(if d > x then d else x) = max d x"
    by (simp_all add: min_def max_def)
  then show ?case by (simp add: Cons.IH)
qed

lemma stats_of_history:
  assumes "blockTimeHistory btc \<noteq> []"
  shows "GetBlockTimeStats btc
         = Inr (wrap64 (sumDurations 0 (blockTimeHistory btc)
                          sdiv int (length (blockTimeHistory btc))),
                Min (set (blockTimeHistory btc)), Max (set (blockTimeHistory btc)))"
proof -
  obtain d ds where hist: "blockTimeHistory btc = d # ds"
    using assms by (cases "blockTimeHistory btc") auto
  have mn: "fold min (d # ds) d = Min (set (d # ds))"
    using Min.set_eq_fold [of d "d # ds"] by simp
  have mx: "fold max (d # ds) d = Max (set (d # ds))"
    using Max.set_eq_fold [of d "d # ds"] by simp
  have "statsLoop (0, d, d) (d # ds)
        = (sumDurations 0 (d # ds), Min (set (d # ds)), Max (set (d # ds)))"
    unfolding statsLoop_fold mn mx ..
  then show ?thesis
    by (simp add: GetBlockTimeStats_def hist index_def div64_def)
qed

text \<open>
  Claim C7, as stated: with at least ten samples \<open>IsBlockTimeStable\<close> returns true exactly
  when the average is not zero and \<open>(max - min) / average\<close> is below one half. The code
  subtracts in \<open>int64\<close> and divides in \<open>float64\<close>, and on large intervals the result differs
  from the exact quotient in both directions. After the first run of observations the
  history is \<open>[2^63 - 1, -2, 0, ..., 0]\<close>: \<open>max - min\<close> wraps to a negative number and the
  calculator reports stable, while the exact quotient is about 10. After the second run
  \<open>max - min\<close> is \<open>2^53\<close> and the average \<open>2^54 + 1\<close>, which converts to \<open>2^54\<close>: the
  \<open>float64\<close> quotient is exactly one half and the calculator reports unstable, while the
  exact quotient is below one half.
\<close>

theorem stability_differs_from_exact_quotient:
  "blockTimeHistory (feed (NewBlockTimeCalculator 100) saturatedObservations)
     = [9223372036854775807, - 2, 0, 0, 0, 0, 0, 0, 0, 0]
   \<and> GetBlockTimeStats (feed (NewBlockTimeCalculator 100) saturatedObservations)
       = Inr (922337203685477580, - 2, 9223372036854775807)
   \<and> \<not> (of_int (9223372036854775807 - (- 2)) / of_int 922337203685477580 :: rat) < 1 / 2
   \<and> IsBlockTimeStable (feed (NewBlockTimeCalculator 100) saturatedObservations) = Inr True
   \<and> blockTimeHistory (feed (NewBlockTimeCalculator 100) roundedObservations)
       = [13510798882111489, 22517998136852481, 13510798882111489, 22517998136852481,
          13510798882111489, 22517998136852481, 13510798882111489, 22517998136852481,
          13510798882111489, 22517998136852481]
   \<and> GetBlockTimeStats (feed (NewBlockTimeCalculator 100) roundedObservations)
       = Inr (18014398509481985, 13510798882111489, 22517998136852481)
   \<and> (of_int (22517998136852481 - 13510798882111489) / of_int 18014398509481985 :: rat)
       < 1 / 2
   \<and> IsBlockTimeStable (feed (NewBlockTimeCalculator 100) roundedObservations) = Inr False"
proof -
  have saturated: "blockTimeHistory (feed (NewBlockTimeCalculator 100) saturatedObservations)
     = [9223372036854775807, - 2, 0, 0, 0, 0, 0, 0, 0, 0]"
    by code_simp
  have saturated_stats:
    "GetBlockTimeStats (feed (NewBlockTimeCalculator 100) saturatedObservations)
       = Inr (922337203685477580, - 2, 9223372036854775807)"
    by code_simp
  have saturated_stable:
    "IsBlockTimeStable (feed (NewBlockTimeCalculator 100) saturatedObservations) = Inr True"
    by code_simp
  have rounded: "blockTimeHistory (feed (NewBlockTimeCalculator 100) roundedObservations)
       = [13510798882111489, 22517998136852481, 13510798882111489, 22517998136852481,
          13510798882111489, 22517998136852481, 13510798882111489, 22517998136852481,
          13510798882111489, 22517998136852481]"
    by code_simp
  have rounded_stats:
    "GetBlockTimeStats (feed (NewBlockTimeCalculator 100) roundedObservations)
       = Inr (18014398509481985, 13510798882111489, 22517998136852481)"
    by code_simp
  have rounded_unstable:
    "IsBlockTimeStable (feed (NewBlockTimeCalculator 100) roundedObservations) = Inr False"
    by code_simp
  have quotients:
    "\<not> (of_int (9223372036854775807 - (- 2)) / of_int 922337203685477580 :: rat) < 1 / 2"
    "(of_int (22517998136852481 - 13510798882111489) / of_int 18014398509481985 :: rat)
       < 1 / 2"
    by simp_all
  show ?thesis
    using saturated saturated_stats saturated_stable rounded rounded_stats rounded_unstable
      quotients
    by blast
qed

text \<open>
  Claim C7, amended: with fewer than ten samples \<open>IsBlockTimeStable\<close> returns false,
  whatever the samples are. With at least ten samples, and \<open>max - min\<close> and the average at
  most \<open>2 ^ 53\<close> nanoseconds in magnitude (about 104 days), it returns true exactly when the
  average is not zero and the exact quotient \<open>(max - min) / average\<close> is below one half,
  where \<open>min\<close>, \<open>max\<close> and \<open>average\<close> are the statistics of the history (the least and the
  greatest entry and the \<open>int64\<close> mean). Without the bound the result is that of the
  quotient the code computes: the \<open>int64\<close> difference and the average converted to
  \<open>float64\<close> and divided. The function never panics.
\<close>

theorem block_time_stability:
  "(length (blockTimeHistory btc) < 10 \<longrightarrow> IsBlockTimeStable btc = Inr False)
   \<and> (10 \<le> length (blockTimeHistory btc) \<and> GetBlockTimeStats btc = Inr (avg, mn, mx) \<longrightarrow>
        mn = Min (set (blockTimeHistory btc)) \<and> mx = Max (set (blockTimeHistory btc))
        \<and> avg = wrap64 (sumDurations 0 (blockTimeHistory btc)
                          sdiv int (length (blockTimeHistory btc)))
        \<and> IsBlockTimeStable btc
            = Inr (avg \<noteq> 0
                   \<and> divFloat64 (float64 (wrap64 (mx - mn))) (float64 avg) < 1 / 2)
        \<and> (\<bar>mx - mn\<bar> \<le> 2 ^ 53 \<and> \<bar>avg\<bar> \<le> 2 ^ 53 \<longrightarrow>
             IsBlockTimeStable btc
             = Inr (avg \<noteq> 0 \<and> (of_int (mx - mn) / of_int avg :: rat) < 1 / 2)))
   \<and> (\<exists>stable. IsBlockTimeStable btc = Inr stable)"
proof -
  have few: "IsBlockTimeStable btc = Inr False" if "length (blockTimeHistory btc) < 10"
    using that by (simp add: IsBlockTimeStable_def)
  have many: "mn = Min (set (blockTimeHistory btc)) \<and> mx = Max (set (blockTimeHistory btc))
        \<and> avg = wrap64 (sumDurations 0 (blockTimeHistory btc)
                          sdiv int (length (blockTimeHistory btc)))
        \<and> IsBlockTimeStable btc
            = Inr (avg \<noteq> 0
                   \<and> divFloat64 (float64 (wrap64 (mx - mn))) (float64 avg) < 1 / 2)
        \<and> (\<bar>mx - mn\<bar> \<le> 2 ^ 53 \<and> \<bar>avg\<bar> \<le> 2 ^ 53 \<longrightarrow>
             IsBlockTimeStable btc
             = Inr (avg \<noteq> 0 \<and> (of_int (mx - mn) / of_int avg :: rat) < 1 / 2))"
    if len: "10 \<le> length (blockTimeHistory btc)"
      and stats: "GetBlockTimeStats btc = Inr (avg, mn, mx)"
  proof -
    have nonempty: "blockTimeHistory btc \<noteq> []" using len by auto
    have stat_values: "avg = wrap64 (sumDurations 0 (blockTimeHistory btc)
                          sdiv int (length (blockTimeHistory btc)))"
      "mn = Min (set (blockTimeHistory btc))" "mx = Max (set (blockTimeHistory btc))"
      using stats_of_history [OF nonempty] stats by simp_all
    have computed: "IsBlockTimeStable btc
            = Inr (avg \<noteq> 0
                   \<and> divFloat64 (float64 (wrap64 (mx - mn))) (float64 avg) < 1 / 2)"
      using len by (simp add: IsBlockTimeStable_def stats Let_def)
    have exact: "IsBlockTimeStable btc
             = Inr (avg \<noteq> 0 \<and> (of_int (mx - mn) / of_int avg :: rat) < 1 / 2)"
      if small: "\<bar>mx - mn\<bar> \<le> 2 ^ 53" "\<bar>avg\<bar> \<le> 2 ^ 53"
    proof (cases "avg = 0")
      case True
      then show ?thesis by (simp add: computed)
    next
      case False
      have "divFloat64 (float64 (wrap64 (mx - mn))) (float64 avg)
            = divFloat64 (of_int (mx - mn)) (of_int avg)"
        by (simp only: wrap64_small [OF small(1)] float64_exact [OF small(1)]
            float64_exact [OF small(2)])
      then show ?thesis
        using divFloat64_below_half [OF False small(2), of "mx - mn"] False
        by (simp add: computed)
    qed
    show ?thesis using stat_values computed exact by blast
  qed
  have total: "\<exists>stable. IsBlockTimeStable btc = Inr stable"
  proof (cases "length (blockTimeHistory btc) < 10")
    case True
    then show ?thesis using few by blast
  next
    case False
    obtain r where "GetBlockTimeStats btc = Inr r" using stats_never_panics by blast
    then show ?thesis
      using False by (cases r) (auto simp: IsBlockTimeStable_def Let_def)
  qed
  show ?thesis using few many total by blast
qed

theorem block_time_stability_witness:
  "length (blockTimeHistory (calculatorWith (take 9 steadyHistory))) < 10
   \<and> IsBlockTimeStable (calculatorWith (take 9 steadyHistory)) = Inr False
   \<and> 10 \<le> length (blockTimeHistory (calculatorWith steadyHistory))
   \<and> GetBlockTimeStats (calculatorWith steadyHistory)
       = Inr (6110000000, 5800000000, 7000000000)
   \<and> IsBlockTimeStable (calculatorWith steadyHistory) = Inr True"
proof -
  have nine: "length (blockTimeHistory (calculatorWith (take 9 steadyHistory))) < 10"
    by (simp add: calculatorWith_def steadyHistory_def)
  have ten: "10 \<le> length (blockTimeHistory (calculatorWith steadyHistory))"
    by (simp add: calculatorWith_def steadyHistory_def)
  have stats: "GetBlockTimeStats (calculatorWith steadyHistory)
       = Inr (6110000000, 5800000000, 7000000000)"
    by (simp add: GetBlockTimeStats_def calculatorWith_def steadyHistory_def index_def
        div64_def wrap64_def)
  have small: "\<bar>7000000000 - 5800000000 :: int\<bar> \<le> 2 ^ 53 \<and> \<bar>6110000000 :: int\<bar> \<le> 2 ^ 53"
    by simp
  have unstable: "IsBlockTimeStable (calculatorWith (take 9 steadyHistory)) = Inr False"
    using block_time_stability [of "calculatorWith (take 9 steadyHistory)"] nine by blast
  have "IsBlockTimeStable (calculatorWith steadyHistory)
        = Inr ((6110000000 :: int) \<noteq> 0
               \<and> (of_int (7000000000 - 5800000000) / of_int 6110000000 :: rat) < 1 / 2)"
    using block_time_stability
      [of "calculatorWith steadyHistory" 6110000000 5800000000 7000000000] ten stats small
    by blast
  then have stable: "IsBlockTimeStable (calculatorWith steadyHistory) = Inr True"
    by simp
  show ?thesis using nine unstable ten stats stable by blast
qed

section \<open>Properties of the collector\<close>

subsection \<open>The window scan\<close>

lemma countSignatures_eq:
  "countSignatures (t, a, i) sigs
     = (t + int (length sigs),
        a + int (length (filter (\<lambda>sig. BlockIDFlag sig = 4) sigs)),
        i + int (length (filter (\<lambda>sig. BlockIDFlag sig = 5) sigs)))"
  by (induction sigs arbitrary: t a i) auto

lemma hasSigned_iff:
  "hasSigned V sigs \<longleftrightarrow> (\<exists>sig \<in> set sigs. ValidatorAddress sig = V \<and> BlockIDFlag sig = 4)"
  by (induction sigs) auto

lemma initStats_lookup:
  "initStats vals vs V = (if V \<in> set vals then Some zeroStat else vs V)"
  by (induction vals arbitrary: vs) auto

lemma processBlock_lookup:
  assumes "vs V = Some s"
  shows "processBlock b vs V
         = Some (recordSignature (hasSigned V (Signatures b))
                   (if ProposerAddress b = V then s\<lparr>proposals := proposals s + 1\<rparr> else s))"
  using assms by (auto simp: processBlock_def countProposal_def split: option.splits)

lemma window_step:
  assumes "i < 100" "0 \<le> i" "H - i > (0::int)"
  shows "{max 1 (H - 99)..H - i} = insert (H - i) {max 1 (H - 99)..H - (i + 1)}"
  using assms by auto

lemma window_done:
  assumes "\<not> (i < 100 \<and> H - i > (0::int))"
  shows "{max 1 (H - 99)..H - i} = {}"
  using assms by auto

lemma scan_counter:
  fixes f :: "ValidatorStat \<Rightarrow> int" and P :: "Block \<Rightarrow> bool"
  assumes step: "\<And>b s. f (recordSignature (hasSigned V (Signatures b)) s)
                        = f s + (if P b then 1 else 0)"
    and keep: "\<And>s. f (s\<lparr>proposals := proposals s + 1\<rparr>) = f s"
    and "0 \<le> i" and "vs V = Some s0"
  shows "\<exists>s. scanWindow node H i vs V = Some s
           \<and> f s = f s0 + int (card {h \<in> {max 1 (H - 99)..H - i}.
                                      \<exists>b. GetBlock node h = Inr b \<and> P b})"
  using assms(3,4)
proof (induction node H i vs arbitrary: s0 rule: scanWindow.induct)
  case (1 node H i vs)
  define W where "W = (\<lambda>j. {h \<in> {max 1 (H - 99)..H - j}. \<exists>b. GetBlock node h = Inr b \<and> P b})"
  have goal: ?case if "\<exists>s. scanWindow node H i vs V = Some s \<and> f s = f s0 + int (card (W i))"
    using that unfolding W_def .
  show ?case
  proof (cases "i < 100 \<and> H - i > 0")
    case False
    then have empty: "W i = {}" using window_done [of i H] unfolding W_def by blast
    have stop: "scanWindow node H i vs = vs"
      using False by (subst scanWindow.simps) auto
    show ?thesis
      by (rule goal) (simp add: stop empty "1.prems"(2))
  next
    case True
    define vs1 where
      "vs1 = (case GetBlock node (H - i) of Inl e \<Rightarrow> vs | Inr block \<Rightarrow> processBlock block vs)"
    have win: "{max 1 (H - 99)..H - i} = insert (H - i) {max 1 (H - 99)..H - (i + 1)}"
      using window_step [of i H] True "1.prems"(1) by simp
    have fin: "finite (W (i + 1))"
      unfolding W_def by (rule finite_subset [of _ "{max 1 (H - 99)..H - (i + 1)}"]) auto
    have notin: "H - i \<notin> W (i + 1)" unfolding W_def by simp
    have unfold: "scanWindow node H i vs = scanWindow node H (i + 1) vs1"
      using True unfolding vs1_def by (subst scanWindow.simps) simp
    have next_i: "0 \<le> i + 1" using "1.prems"(1) by simp
    have IH: "\<exists>s. scanWindow node H (i + 1) vs1 V = Some s
           \<and> f s = f s' + int (card (W (i + 1)))" if "vs1 V = Some s'" for s'
      using "1.IH" [OF True next_i, of s'] that unfolding vs1_def W_def by blast
    show ?thesis
    proof (cases "GetBlock node (H - i)")
      case (Inl e)
      have same: "W i = W (i + 1)" unfolding W_def win using Inl by auto
      have "vs1 V = Some s0" using Inl "1.prems"(2) by (simp add: vs1_def)
      from IH [OF this] show ?thesis
        by (intro goal) (simp add: unfold same)
    next
      case (Inr b)
      define s1 where "s1 = recordSignature (hasSigned V (Signatures b))
                   (if ProposerAddress b = V then s0\<lparr>proposals := proposals s0 + 1\<rparr> else s0)"
      have vs1: "vs1 V = Some s1"
        using Inr processBlock_lookup [of vs V s0 b] "1.prems"(2) by (simp add: s1_def vs1_def)
      have fs1: "f s1 = f s0 + (if P b then 1 else 0)"
        by (simp add: s1_def step keep)
      have Wi: "W i = (if P b then insert (H - i) (W (i + 1)) else W (i + 1))"
        unfolding W_def win using Inr by auto
      have card: "int (card (W i)) = int (card (W (i + 1))) + (if P b then 1 else 0)"
        using fin notin by (simp add: Wi)
      from IH [OF vs1] obtain s where res: "scanWindow node H (i + 1) vs1 V = Some s"
        and fs: "f s = f s1 + int (card (W (i + 1)))" by blast
      have "f s = f s0 + int (card (W i))"
        unfolding fs fs1 card by simp
      with res show ?thesis
        by (intro goal) (simp add: unfold)
    qed
  qed
qed


lemma recordSignature_signed:
  "signedBlocks (recordSignature b s) = signedBlocks s + (if b then 1 else 0)"
  by (simp add: recordSignature_def Let_def)

lemma recordSignature_missed:
  "missedBlocks (recordSignature b s) = missedBlocks s + (if \<not> b then 1 else 0)"
  by (simp add: recordSignature_def Let_def)

lemma windowStats_parsed:
  assumes "ParseInt latestBlockHeight = Some H"
  shows "windowStats node chain latestBlockHeight
         = scanWindow node H 0 (initStats (Validators chain) Map.empty)"
  using assms by (simp add: windowStats_def)

text \<open>
  Claim C3: for a tracked validator \<open>V\<close> and a scan starting at height \<open>H\<close>, the heights
  visited are \<open>H, H - 1, \<dots>, max 1 (H - 99)\<close>; after the scan \<open>signedBlocks\<close> is the number
  of those heights whose block was fetched and holds a COMMIT entry (flag 4) of \<open>V\<close>,
  \<open>missedBlocks\<close> the number of those whose block was fetched and holds none (an ABSENT
  entry, another flag, or no entry at all), and their sum is the number of fetched
  heights: a fetched block adds one to exactly one counter, a failed fetch to neither.
\<close>

theorem window_scan_counts:
  assumes "V \<in> set (Validators chain)" and "ParseInt latestBlockHeight = Some H"
  shows "\<exists>stats. windowStats node chain latestBlockHeight V = Some stats
     \<and> signedBlocks stats
         = int (card {h \<in> {max 1 (H - 99)..H}.
                  \<exists>b. GetBlock node h = Inr b
                     \<and> (\<exists>sig \<in> set (Signatures b).
                           ValidatorAddress sig = V \<and> BlockIDFlag sig = 4)})
     \<and> missedBlocks stats
         = int (card {h \<in> {max 1 (H - 99)..H}.
                  \<exists>b. GetBlock node h = Inr b
                     \<and> \<not> (\<exists>sig \<in> set (Signatures b).
                             ValidatorAddress sig = V \<and> BlockIDFlag sig = 4)})
     \<and> signedBlocks stats + missedBlocks stats
         = int (card {h \<in> {max 1 (H - 99)..H}. \<exists>b. GetBlock node h = Inr b})"
proof -
  define vs0 where "vs0 = initStats (Validators chain) Map.empty"
  have start: "vs0 V = Some zeroStat"
    using assms(1) by (simp add: vs0_def initStats_lookup)
  have scan: "windowStats node chain latestBlockHeight = scanWindow node H 0 vs0"
    using windowStats_parsed [OF assms(2)] by (simp add: vs0_def)
  have signed: "\<exists>s. scanWindow node H 0 vs0 V = Some s
      \<and> signedBlocks s = signedBlocks zeroStat
          + int (card {h \<in> {max 1 (H - 99)..H - 0}.
                   \<exists>b. GetBlock node h = Inr b \<and> hasSigned V (Signatures b)})"
    using scan_counter [where f = signedBlocks and P = "\<lambda>b. hasSigned V (Signatures b)"
        and V = V and vs = vs0 and ?s0.0 = zeroStat and i = 0 and node = node and H = H] start
    by (simp add: recordSignature_signed)
  have missed: "\<exists>s. scanWindow node H 0 vs0 V = Some s
      \<and> missedBlocks s = missedBlocks zeroStat
          + int (card {h \<in> {max 1 (H - 99)..H - 0}.
                   \<exists>b. GetBlock node h = Inr b \<and> \<not> hasSigned V (Signatures b)})"
    using scan_counter [where f = missedBlocks and P = "\<lambda>b. \<not> hasSigned V (Signatures b)"
        and V = V and vs = vs0 and ?s0.0 = zeroStat and i = 0 and node = node and H = H] start
    by (simp add: recordSignature_missed)
  have both: "\<exists>s. scanWindow node H 0 vs0 V = Some s
      \<and> signedBlocks s + missedBlocks s = signedBlocks zeroStat + missedBlocks zeroStat
          + int (card {h \<in> {max 1 (H - 99)..H - 0}.
                   \<exists>b. GetBlock node h = Inr b \<and> True})"
    using scan_counter [where f = "\<lambda>s. signedBlocks s + missedBlocks s" and P = "\<lambda>b. True"
        and V = V and vs = vs0 and ?s0.0 = zeroStat and i = 0 and node = node and H = H] start
    by (simp add: recordSignature_signed recordSignature_missed)
  from signed missed both show ?thesis
    unfolding scan hasSigned_iff by (auto simp: zeroStat_def)
qed


lemma scan_all_failed:
  assumes "\<forall>h. 0 < h \<and> h \<le> H - i \<longrightarrow> (\<exists>e. GetBlock node h = Inl e)"
  shows "scanWindow node H i vs = vs"
  using assms
proof (induction node H i vs rule: scanWindow.induct)
  case (1 node H i vs)
  show ?case
  proof (cases "i < 100 \<and> H - i > 0")
    case False
    then show ?thesis by (subst scanWindow.simps) auto
  next
    case True
    have "0 < H - i \<and> H - i \<le> H - i" using True by simp
    then obtain e where e: "GetBlock node (H - i) = Inl e" using "1.prems" by blast
    have "\<forall>h. 0 < h \<and> h \<le> H - (i + 1) \<longrightarrow> (\<exists>e. GetBlock node h = Inl e)"
      using "1.prems" by auto
    then have "scanWindow node H (i + 1) vs = vs"
      using "1.IH" [OF True] e by simp
    then show ?thesis using True e by (subst scanWindow.simps) simp
  qed
qed

lemma scan_fetched:
  assumes "i < 100" "H - i > 0" "GetBlock node (H - i) = Inr b"
  shows "scanWindow node H i vs = scanWindow node H (i + 1) (processBlock b vs)"
  using assms by (subst scanWindow.simps) simp

lemma hasSigned_flagsOf: "hasSigned V (Signatures b) \<longleftrightarrow> 4 \<in> set (flagsOf V b)"
  by (auto simp: hasSigned_iff flagsOf_def)

lemma activeFlag_flagsOf:
  "activeFlag V sigs a
   = (case map BlockIDFlag (filter (\<lambda>sig. ValidatorAddress sig = V) sigs) of
        [] \<Rightarrow> a
      | f # fs \<Rightarrow> if f = 4 then 1 else if f = 5 then 0 else a)"
  by (induction sigs) auto

lemma counters_proposals [simp]: "counters (s\<lparr>proposals := p\<rparr>) = counters s"
  by (simp add: counters_def)

lemma counters_signed:
  "counters s = (a, m, c, x) \<Longrightarrow> counters (recordSignature True s) = (a + 1, m, 0, x)"
  by (auto simp: counters_def recordSignature_def)

lemma counters_missed:
  "counters s = (a, m, c, x) \<Longrightarrow>
   counters (recordSignature False s) = (a, m + 1, c + 1, if c + 1 > x then c + 1 else x)"
  by (auto simp: counters_def recordSignature_def Let_def)

lemma processBlock_counters:
  assumes "vs V = Some s" "counters s = (a, m, c, x)"
  shows "\<exists>s'. processBlock b vs V = Some s'
     \<and> counters s' = (if 4 \<in> set (flagsOf V b) then (a + 1, m, 0, x)
                      else (a, m + 1, c + 1, if c + 1 > x then c + 1 else x))"
proof -
  define s1 where "s1 = (if ProposerAddress b = V then s\<lparr>proposals := proposals s + 1\<rparr> else s)"
  have c1: "counters s1 = (a, m, c, x)" using assms(2) by (simp add: s1_def)
  have "processBlock b vs V = Some (recordSignature (hasSigned V (Signatures b)) s1)"
    using processBlock_lookup [of vs V s b] assms(1) by (simp add: s1_def)
  then show ?thesis
    using counters_signed [OF c1] counters_missed [OF c1]
    by (simp add: hasSigned_flagsOf)
qed

text \<open>
  Claim C8: when the blocks at the five heights \<open>H, \<dots>, H - 4\<close> give \<open>V\<close> the flags COMMIT,
  ABSENT, COMMIT, ABSENT, COMMIT and no lower height of the window is served, the scan
  ends with \<open>signedBlocks = 3\<close>, \<open>missedBlocks = 2\<close> and \<open>maxConsecutiveMissed = 1\<close> for \<open>V\<close>;
  the latest block shows COMMIT, so \<open>V\<close> is active and the reported values are the raw ones.
\<close>

theorem alternating_five_heights:
  assumes tracked: "V \<in> set (Validators chain)"
    and height: "ParseInt latestBlockHeight = Some H" "5 \<le> H"
    and b0: "GetBlock node H = Inr b0" "flagsOf V b0 = [4]"
    and b1: "GetBlock node (H - 1) = Inr b1" "flagsOf V b1 = [5]"
    and b2: "GetBlock node (H - 2) = Inr b2" "flagsOf V b2 = [4]"
    and b3: "GetBlock node (H - 3) = Inr b3" "flagsOf V b3 = [5]"
    and b4: "GetBlock node (H - 4) = Inr b4" "flagsOf V b4 = [4]"
    and rest: "\<forall>h. 0 < h \<and> h < H - 4 \<longrightarrow> (\<exists>e. GetBlock node h = Inl e)"
  shows "\<exists>stats. windowStats node chain latestBlockHeight V = Some stats
     \<and> signedBlocks stats = 3 \<and> missedBlocks stats = 2 \<and> maxConsecutiveMissed stats = 1
     \<and> validatorActiveStatus node latestBlockHeight V = 1
     \<and> reportedMissedBlocks (validatorActiveStatus node latestBlockHeight V) stats = 2
     \<and> (hd (Validators chain) = V \<longrightarrow>
           firstValidatorSummary node chain latestBlockHeight
             (windowStats node chain latestBlockHeight) = (3, 2, 1))"
proof -
  define vs0 where "vs0 = initStats (Validators chain) Map.empty"
  define vs1 where "vs1 = processBlock b0 vs0"
  define vs2 where "vs2 = processBlock b1 vs1"
  define vs3 where "vs3 = processBlock b2 vs2"
  define vs4 where "vs4 = processBlock b3 vs3"
  define vs5 where "vs5 = processBlock b4 vs4"
  have scan: "windowStats node chain latestBlockHeight = scanWindow node H 0 vs0"
    using windowStats_parsed [OF height(1)] by (simp add: vs0_def)
  have "scanWindow node H 0 vs0 = scanWindow node H 1 vs1"
    using scan_fetched [of 0 H node b0 vs0] height(2) b0(1) by (simp add: vs1_def)
  also have "\<dots> = scanWindow node H 2 vs2"
    using scan_fetched [of 1 H node b1 vs1] height(2) b1(1) by (simp add: vs2_def)
  also have "\<dots> = scanWindow node H 3 vs3"
    using scan_fetched [of 2 H node b2 vs2] height(2) b2(1) by (simp add: vs3_def)
  also have "\<dots> = scanWindow node H 4 vs4"
    using scan_fetched [of 3 H node b3 vs3] height(2) b3(1) by (simp add: vs4_def)
  also have "\<dots> = scanWindow node H 5 vs5"
    using scan_fetched [of 4 H node b4 vs4] height(2) b4(1) by (simp add: vs5_def)
  also have "\<dots> = vs5"
    using scan_all_failed [of H 5 node vs5] rest by simp
  finally have result: "windowStats node chain latestBlockHeight = vs5"
    by (simp add: scan)
  have s0: "vs0 V = Some zeroStat" "counters zeroStat = (0, 0, 0, 0)"
    using tracked by (simp_all add: vs0_def initStats_lookup counters_def zeroStat_def)
  obtain s1 where s1: "vs1 V = Some s1" "counters s1 = (1, 0, 0, 0)"
    using processBlock_counters [of vs0 V zeroStat 0 0 0 0 b0] s0 b0(2) by (auto simp: vs1_def)
  obtain s2 where s2: "vs2 V = Some s2" "counters s2 = (1, 1, 1, 1)"
    using processBlock_counters [of vs1 V s1 1 0 0 0 b1] s1 b1(2) by (auto simp: vs2_def)
  obtain s3 where s3: "vs3 V = Some s3" "counters s3 = (2, 1, 0, 1)"
    using processBlock_counters [of vs2 V s2 1 1 1 1 b2] s2 b2(2) by (auto simp: vs3_def)
  obtain s4 where s4: "vs4 V = Some s4" "counters s4 = (2, 2, 1, 1)"
    using processBlock_counters [of vs3 V s3 2 1 0 1 b3] s3 b3(2) by (auto simp: vs4_def)
  obtain s5 where s5: "vs5 V = Some s5" "counters s5 = (3, 2, 0, 1)"
    using processBlock_counters [of vs4 V s4 2 2 1 1 b4] s4 b4(2) by (auto simp: vs5_def)
  have fields: "signedBlocks s5 = 3" "missedBlocks s5 = 2" "maxConsecutiveMissed s5 = 1"
    using s5(2) by (simp_all add: counters_def)
  have pos: "0 < H" using height(2) by simp
  have active: "validatorActiveStatus node latestBlockHeight V = 1"
    using b0 by (simp add: validatorActiveStatus_def height(1) activeFlag_flagsOf flagsOf_def)
  have reported: "reportedMissedBlocks (validatorActiveStatus node latestBlockHeight V) s5 = 2"
    by (simp add: active reportedMissedBlocks_def fields)
  have summary: "firstValidatorSummary node chain latestBlockHeight vs5 = (3, 2, 1)"
    if "hd (Validators chain) = V"
    using that tracked s5(1)
    by (auto simp: firstValidatorSummary_def Let_def active fields)
  show ?thesis
    using s5(1) fields active reported summary unfolding result by blast
qed

subsection \<open>Examples and post-processing\<close>

lemma parse_1000: "ParseInt ''1000'' = Some 1000"
  by (simp add: ParseInt_def digitValue_def maxInt64_def)

theorem alternating_five_heights_witness:
  "''VAL1'' \<in> set (Validators exampleChain)
   \<and> ParseInt ''1000'' = Some 1000
   \<and> flagsOf ''VAL1'' \<lparr>ProposerAddress = ''VAL2'',
         Signatures = [signatureOf ''VAL1'' 4, signatureOf ''VAL2'' 4]\<rparr> = [4]
   \<and> flagsOf ''VAL1'' \<lparr>ProposerAddress = ''VAL2'',
         Signatures = [signatureOf ''VAL1'' 5, signatureOf ''VAL2'' 4]\<rparr> = [5]
   \<and> GetBlock alternatingNode 1000 = Inr \<lparr>ProposerAddress = ''VAL2'',
         Signatures = [signatureOf ''VAL1'' 4, signatureOf ''VAL2'' 4]\<rparr>
   \<and> GetBlock alternatingNode 999 = Inr \<lparr>ProposerAddress = ''VAL2'',
         Signatures = [signatureOf ''VAL1'' 5, signatureOf ''VAL2'' 4]\<rparr>
   \<and> (\<exists>stats. windowStats alternatingNode exampleChain ''1000'' ''VAL1'' = Some stats
        \<and> signedBlocks stats = 3 \<and> missedBlocks stats = 2 \<and> maxConsecutiveMissed stats = 1)
   \<and> firstValidatorSummary alternatingNode exampleChain ''1000''
         (windowStats alternatingNode exampleChain ''1000'') = (3, 2, 1)"
proof -
  define commit where "commit = \<lparr>ProposerAddress = ''VAL2'',
         Signatures = [signatureOf ''VAL1'' 4, signatureOf ''VAL2'' 4]\<rparr>"
  define absent where "absent = \<lparr>ProposerAddress = ''VAL2'',
         Signatures = [signatureOf ''VAL1'' 5, signatureOf ''VAL2'' 4]\<rparr>"
  have tracked: "''VAL1'' \<in> set (Validators exampleChain)"
    by (simp add: exampleChain_def)
  have first: "hd (Validators exampleChain) = ''VAL1''"
    by (simp add: exampleChain_def)
  have fc: "flagsOf ''VAL1'' commit = [4]" and fa: "flagsOf ''VAL1'' absent = [5]"
    by (simp_all add: flagsOf_def commit_def absent_def signatureOf_def)
  have blocks: "GetBlock alternatingNode 1000 = Inr commit"
    "GetBlock alternatingNode (1000 - 1) = Inr absent"
    "GetBlock alternatingNode (1000 - 2) = Inr commit"
    "GetBlock alternatingNode (1000 - 3) = Inr absent"
    "GetBlock alternatingNode (1000 - 4) = Inr commit"
    by (simp_all add: GetBlock_def alternatingNode_def nodeWith_def alternatingBlocks_def
        commit_def absent_def)
  have rest: "\<forall>h. 0 < h \<and> h < 1000 - 4 \<longrightarrow> (\<exists>e. GetBlock alternatingNode h = Inl e)"
    by (simp add: GetBlock_def alternatingNode_def nodeWith_def alternatingBlocks_def)
  have five: "(5::int) \<le> 1000" by simp
  show ?thesis
    using alternating_five_heights [OF tracked parse_1000 five
        blocks(1) fc blocks(2) fa blocks(3) fc blocks(4) fa blocks(5) fc rest]
      tracked first parse_1000 fc fa blocks(1,2)
    unfolding commit_def absent_def by auto
qed

lemma parse_3: "ParseInt ''3'' = Some 3"
  by (simp add: ParseInt_def digitValue_def maxInt64_def)

theorem window_scan_counts_witness:
  "''VAL1'' \<in> set (Validators exampleChain)
   \<and> ParseInt ''3'' = Some 3
   \<and> (\<exists>stats. windowStats partialNode exampleChain ''3'' ''VAL1'' = Some stats
        \<and> signedBlocks stats = 1 \<and> missedBlocks stats = 1
        \<and> signedBlocks stats + missedBlocks stats = 2)"
proof -
  have tracked: "''VAL1'' \<in> set (Validators exampleChain)"
    by (simp add: exampleChain_def)
  have get: "GetBlock partialNode h
             = (if h = 3 then Inr \<lparr>ProposerAddress = ''VAL1'',
                      Signatures = [signatureOf ''VAL1'' 4, signatureOf ''VAL2'' 4]\<rparr>
                else if h = 1 then Inr \<lparr>ProposerAddress = ''VAL2'',
                      Signatures = [signatureOf ''VAL2'' 4]\<rparr>
                else Inl (Error ''height not available''))" if "0 < h" for h
    using that by (simp add: GetBlock_def partialNode_def nodeWith_def partialBlocks_def)
  have signed: "{h \<in> {max 1 (3 - 99)..3}.
          \<exists>b. GetBlock partialNode h = Inr b
             \<and> (\<exists>sig \<in> set (Signatures b).
                   ValidatorAddress sig = ''VAL1'' \<and> BlockIDFlag sig = 4)} = {3::int}"
    by (auto simp: get signatureOf_def split: if_splits)
  have missed: "{h \<in> {max 1 (3 - 99)..3}.
          \<exists>b. GetBlock partialNode h = Inr b
             \<and> \<not> (\<exists>sig \<in> set (Signatures b).
                     ValidatorAddress sig = ''VAL1'' \<and> BlockIDFlag sig = 4)} = {1::int}"
    by (auto simp: get signatureOf_def split: if_splits)
  show ?thesis
    using window_scan_counts [OF tracked parse_3, of partialNode] tracked parse_3
    unfolding signed missed by auto
qed

lemma activeFlag_find:
  "activeFlag V sigs a
   = (case find (\<lambda>sig. ValidatorAddress sig = V) sigs of
        None \<Rightarrow> a
      | Some sig \<Rightarrow> if BlockIDFlag sig = 4 then 1 else if BlockIDFlag sig = 5 then 0 else a)"
  by (induction sigs) auto

text \<open>
  Claim C2: when the entry of validator \<open>V\<close> in the latest block (the first entry with
  its address, where the lookup stops) has flag ABSENT, \<open>V\<close> is computed inactive and,
  whatever its raw counters \<open>stats\<close> are, the missed-blocks gauge emitted for \<open>V\<close> is 0;
  when \<open>V\<close> is the first configured validator, whose counters feed the chain-wide
  gauges, the missed-blocks and the maximum-consecutive-missed gauges are 0 too. The
  maximum consecutive-missed count is emitted for the first configured validator only.
\<close>

theorem absent_in_latest_block_reports_zero:
  assumes "ParseInt latestBlockHeight = Some currentHeight"
    and "GetBlock node currentHeight = Inr block"
    and "find (\<lambda>sig. ValidatorAddress sig = V) (Signatures block) = Some sig"
    and "BlockIDFlag sig = 5"
  shows "validatorActiveStatus node latestBlockHeight V = 0
     \<and> reportedMissedBlocks (validatorActiveStatus node latestBlockHeight V) stats = 0
     \<and> desc (hd (validatorMetrics node chainID latestBlockHeight infoMap V stats))
          = ''cosmos_validator_missed_blocks''
     \<and> gauge (hd (validatorMetrics node chainID latestBlockHeight infoMap V stats)) = 0
     \<and> (Validators chain \<noteq> [] \<and> hd (Validators chain) = V \<and> validatorStats V = Some stats \<longrightarrow>
          firstValidatorSummary node chain latestBlockHeight validatorStats
            = (signedBlocks stats, 0, 0)
          \<and> desc (tenderdutyMetrics chainID height
                     (firstValidatorSummary node chain latestBlockHeight validatorStats) ! 4)
              = ''cosmos_validators_missed_blocks''
          \<and> gauge (tenderdutyMetrics chainID height
                     (firstValidatorSummary node chain latestBlockHeight validatorStats) ! 4) = 0
          \<and> desc (tenderdutyMetrics chainID height
                     (firstValidatorSummary node chain latestBlockHeight validatorStats) ! 5)
              = ''cosmos_td_consecutive_missed''
          \<and> gauge (tenderdutyMetrics chainID height
                     (firstValidatorSummary node chain latestBlockHeight validatorStats) ! 5) = 0)"
proof -
  have inactive: "validatorActiveStatus node latestBlockHeight V = 0"
    using assms by (simp add: validatorActiveStatus_def activeFlag_find)
  have reported: "reportedMissedBlocks (validatorActiveStatus node latestBlockHeight V) stats = 0"
    by (simp add: inactive reportedMissedBlocks_def)
  have metric: "hd (validatorMetrics node chainID latestBlockHeight infoMap V stats)
      = newMetric ''cosmos_validator_missed_blocks'' 0
          [chainID, V, case infoMap V of None \<Rightarrow> ''Unknown'' | Some info \<Rightarrow> Moniker info]"
    by (simp add: validatorMetrics_def Let_def reported float64_small)
  have summary: "firstValidatorSummary node chain latestBlockHeight validatorStats
            = (signedBlocks stats, 0, 0)"
    if "Validators chain \<noteq> []" "hd (Validators chain) = V" "validatorStats V = Some stats"
    using that by (simp add: firstValidatorSummary_def Let_def inactive)
  show ?thesis
    using inactive reported summary
    by (simp add: metric newMetric_def tenderdutyMetrics_def float64_small)
qed

text \<open>
  Claim C5: for the signature list of the fetched latest block, the total is the number
  of entries, active the number with flag COMMIT, inactive the number with flag ABSENT,
  each emitted as the \<open>float64\<close> of the count, and the bonded ratio is the \<open>float64\<close> quotient
  of the active by the total gauge, or 0 for an empty list; 7 COMMIT and 3 ABSENT entries
  give 10, 7, 3 and the \<open>float64\<close> nearest to 7/10, which is
  3152519739159347 / 4503599627370496, the value of the literal \<open>0.7\<close>.
\<close>

theorem latest_block_aggregate:
  assumes "ParseInt latestBlockHeight = Some currentHeight"
    and "GetBlock node currentHeight = Inr block"
  shows "latestSignatureCounts node latestBlockHeight
           = (int (length (Signatures block)),
              int (length (filter (\<lambda>sig. BlockIDFlag sig = 4) (Signatures block))),
              int (length (filter (\<lambda>sig. BlockIDFlag sig = 5) (Signatures block))))
     \<and> map gauge (validatorStatisticsMetrics chainID
                     (latestSignatureCounts node latestBlockHeight))
         = [float64 (int (length (Signatures block))),
            float64 (int (length (filter (\<lambda>sig. BlockIDFlag sig = 4) (Signatures block)))),
            float64 (int (length (filter (\<lambda>sig. BlockIDFlag sig = 5) (Signatures block)))),
            if length (Signatures block) = 0 then 0
            else divFloat64
                   (float64 (int (length (filter (\<lambda>sig. BlockIDFlag sig = 4)
                                            (Signatures block)))))
                   (float64 (int (length (Signatures block))))]
     \<and> (length (filter (\<lambda>sig. BlockIDFlag sig = 4) (Signatures block)) = 7
        \<and> length (filter (\<lambda>sig. BlockIDFlag sig = 5) (Signatures block)) = 3
        \<and> length (Signatures block) = 10 \<longrightarrow>
          map gauge (validatorStatisticsMetrics chainID
                       (latestSignatureCounts node latestBlockHeight))
            = [10, 7, 3, roundFloat64 (7 / 10)]
          \<and> roundFloat64 (7 / 10) = 3152519739159347 / 4503599627370496)"
proof -
  have counts: "latestSignatureCounts node latestBlockHeight
           = (int (length (Signatures block)),
              int (length (filter (\<lambda>sig. BlockIDFlag sig = 4) (Signatures block))),
              int (length (filter (\<lambda>sig. BlockIDFlag sig = 5) (Signatures block))))"
    using assms by (simp add: latestSignatureCounts_def countSignatures_eq)
  have gauges: "map gauge (validatorStatisticsMetrics chainID (tot, act, inact))
         = [float64 tot, float64 act, float64 inact,
            if tot > 0 then divFloat64 (float64 act) (float64 tot) else 0]"
    for tot act inact
    by (simp add: validatorStatisticsMetrics_def newMetric_def bondedRatio_def)
  have nearest: "roundFloat64 (7 / 10) = 3152519739159347 / 4503599627370496"
    by code_simp
  show ?thesis
    unfolding counts gauges
    by (auto simp add: float64_small divFloat64_def nearest)
qed

lemma blockTimeSection_returns:
  "\<exists>btc1 ms. blockTimeSection btc chainID h currentTime = Inr (btc1, ms) \<and> ms \<noteq> []"
proof -
  define btc1 where "btc1 = (case ParseInt h of None \<Rightarrow> btc
                              | Some height \<Rightarrow> UpdateBlockTime btc height currentTime)"
  obtain avg where avg: "GetAverageBlockTime btc1 = Inr avg"
    using average_never_panics by blast
  obtain latest where latest: "GetLatestBlockTime btc1 = Inr latest"
    using latest_never_panics by blast
  show ?thesis
    unfolding blockTimeSection_def btc1_def [symmetric] Let_def
    by (simp add: avg latest)
qed

text \<open>
  Claim C10: when \<open>GetStatus\<close> fails, \<open>collectCosmosMetrics\<close> returns that error, emits no
  metric and leaves the collector, its block-time calculator included, as it was; so any
  emission or update implies a successful status fetch, after which at least the
  block-time gauge is emitted.
\<close>

theorem status_failure_emits_nothing:
  "(GetStatus (client c) = Inl err \<longrightarrow>
      collectCosmosMetrics c currentTime = Inr (c, [], Some err))
   \<and> (\<forall>c' emitted result.
        collectCosmosMetrics c currentTime = Inr (c', emitted, result)
        \<and> (emitted \<noteq> [] \<or> c' \<noteq> c) \<longrightarrow>
        (\<exists>latestBlockHeight. GetStatus (client c) = Inr latestBlockHeight))
   \<and> (\<forall>latestBlockHeight. GetStatus (client c) = Inr latestBlockHeight \<longrightarrow>
        (\<exists>c' emitted result.
           collectCosmosMetrics c currentTime = Inr (c', emitted, result) \<and> emitted \<noteq> []))"
proof -
  have failed: "collectCosmosMetrics c currentTime = Inr (c, [], Some err)"
    if "GetStatus (client c) = Inl err" for err
    using that by (simp add: collectCosmosMetrics_def)
  have after: "\<exists>latestBlockHeight. GetStatus (client c) = Inr latestBlockHeight"
    if "collectCosmosMetrics c currentTime = Inr (c', emitted, result)"
      and "emitted \<noteq> [] \<or> c' \<noteq> c" for c' emitted result
  proof (cases "GetStatus (client c)")
    case (Inl e)
    then show ?thesis using failed [OF Inl] that by auto
  next
    case (Inr h)
    then show ?thesis by blast
  qed
  have ok: "\<exists>c' emitted result.
           collectCosmosMetrics c currentTime = Inr (c', emitted, result) \<and> emitted \<noteq> []"
    if st: "GetStatus (client c) = Inr h" for h
  proof -
    obtain btc1 ms where sect: "blockTimeSection (blockTimeCalculator c) (ChainID (cfg c)) h
        currentTime = Inr (btc1, ms)" and "ms \<noteq> []"
      using blockTimeSection_returns by blast
    then show ?thesis
      by (cases "GetValidators (client c)")
         (simp_all add: collectCosmosMetrics_def st Let_def)
  qed
  show ?thesis using failed after ok by blast
qed

lemma parse_7: "ParseInt ''7'' = Some 7"
  by (simp add: ParseInt_def digitValue_def maxInt64_def)

lemma parse_42: "ParseInt ''42'' = Some 42"
  by (simp add: ParseInt_def digitValue_def maxInt64_def)

theorem absent_in_latest_block_reports_zero_witness:
  "ParseInt ''7'' = Some 7
   \<and> GetBlock absentNode 7 = Inr \<lparr>ProposerAddress = ''VAL2'',
                Signatures = [signatureOf ''VAL1'' 5, signatureOf ''VAL2'' 4]\<rparr>
   \<and> find (\<lambda>sig. ValidatorAddress sig = ''VAL1'')
        (Signatures \<lparr>ProposerAddress = ''VAL2'',
                Signatures = [signatureOf ''VAL1'' 5, signatureOf ''VAL2'' 4]\<rparr>)
       = Some (signatureOf ''VAL1'' 5)
   \<and> BlockIDFlag (signatureOf ''VAL1'' 5) = 5
   \<and> missedBlocks rawStat = 10 \<and> maxConsecutiveMissed rawStat = 4
   \<and> reportedMissedBlocks (validatorActiveStatus absentNode ''7'' ''VAL1'') rawStat = 0
   \<and> firstValidatorSummary absentNode exampleChain ''7'' [''VAL1'' \<mapsto> rawStat] = (90, 0, 0)"
proof -
  have block: "GetBlock absentNode 7 = Inr \<lparr>ProposerAddress = ''VAL2'',
                Signatures = [signatureOf ''VAL1'' 5, signatureOf ''VAL2'' 4]\<rparr>"
    by (simp add: GetBlock_def absentNode_def nodeWith_def absentBlocks_def)
  have entry: "find (\<lambda>sig. ValidatorAddress sig = ''VAL1'')
        (Signatures \<lparr>ProposerAddress = ''VAL2'',
                Signatures = [signatureOf ''VAL1'' 5, signatureOf ''VAL2'' 4]\<rparr>)
       = Some (signatureOf ''VAL1'' 5)"
    by (simp add: signatureOf_def)
  have flag: "BlockIDFlag (signatureOf ''VAL1'' 5) = 5"
    by (simp add: signatureOf_def)
  have first: "Validators exampleChain \<noteq> [] \<and> hd (Validators exampleChain) = ''VAL1''
      \<and> [''VAL1'' \<mapsto> rawStat] ''VAL1'' = Some rawStat"
    by (simp add: exampleChain_def)
  have raw: "missedBlocks rawStat = 10" "maxConsecutiveMissed rawStat = 4"
    "signedBlocks rawStat = 90"
    by (simp_all add: rawStat_def)
  have "reportedMissedBlocks (validatorActiveStatus absentNode ''7'' ''VAL1'') rawStat = 0
      \<and> firstValidatorSummary absentNode exampleChain ''7'' [''VAL1'' \<mapsto> rawStat]
          = (signedBlocks rawStat, 0, 0)"
    using absent_in_latest_block_reports_zero [OF parse_7 block entry flag,
        where stats = rawStat and chainID = "''0g-galileo-testnet''" and infoMap = Map.empty
          and chain = exampleChain and validatorStats = "[''VAL1'' \<mapsto> rawStat]"
          and height = 7]
      first by blast
  then show ?thesis
    using parse_7 block entry flag raw by simp
qed

theorem latest_block_aggregate_witness:
  "ParseInt ''42'' = Some 42
   \<and> GetBlock tenNode 42 = Inr \<lparr>ProposerAddress = ''VAL1'',
                Signatures = map (signatureOf ''VAL'') [4, 4, 5, 4, 4, 5, 4, 4, 5, 4]\<rparr>
   \<and> latestSignatureCounts tenNode ''42'' = (10, 7, 3)
   \<and> map gauge (validatorStatisticsMetrics ''0g-galileo-testnet''
                   (latestSignatureCounts tenNode ''42''))
       = [10, 7, 3, 3152519739159347 / 4503599627370496]"
proof -
  have block: "GetBlock tenNode 42 = Inr \<lparr>ProposerAddress = ''VAL1'',
                Signatures = map (signatureOf ''VAL'') [4, 4, 5, 4, 4, 5, 4, 4, 5, 4]\<rparr>"
    by (simp add: GetBlock_def tenNode_def nodeWith_def tenSignatures_def)
  define sigs where "sigs = map (signatureOf ''VAL'') [4, 4, 5, 4, 4, 5, 4, 4, 5, 4]"
  define emitted where "emitted = map gauge (validatorStatisticsMetrics ''0g-galileo-testnet''
                   (latestSignatureCounts tenNode ''42''))"
  define nearest :: rat where "nearest = 3152519739159347 / 4503599627370496"
  define rounded :: rat where "rounded = roundFloat64 (7 / 10)"
  have lens: "length (filter (\<lambda>sig. BlockIDFlag sig = 4) sigs) = 7"
    "length (filter (\<lambda>sig. BlockIDFlag sig = 5) sigs) = 3" "length sigs = 10"
    by (simp_all add: sigs_def signatureOf_def)
  have "latestSignatureCounts tenNode ''42'' = (10, 7, 3)
      \<and> emitted = [10, 7, 3, nearest]"
    using latest_block_aggregate [OF parse_42 block, of "''0g-galileo-testnet''"] lens
    unfolding sigs_def [symmetric] emitted_def [symmetric] nearest_def [symmetric] rounded_def [symmetric]
    by auto
  then show ?thesis
    using parse_42 block unfolding emitted_def nearest_def by blast
qed

theorem status_failure_emits_nothing_witness:
  "GetStatus (client (exampleCollector downNode)) = Inl (Error ''connection refused'')
   \<and> collectCosmosMetrics (exampleCollector downNode) 1700000000000000000
       = Inr (exampleCollector downNode, [], Some (Error ''connection refused''))"
proof -
  have down: "GetStatus (client (exampleCollector downNode)) = Inl (Error ''connection refused'')"
    by (simp add: GetStatus_def exampleCollector_def downNode_def nodeWith_def)
  show ?thesis
    using down status_failure_emits_nothing
      [of "exampleCollector downNode" "Error ''connection refused''" 1700000000000000000]
    by simp
qed

section \<open>Properties of the scrape\<close>

subsection \<open>The Ethereum path\<close>

text \<open>
  Every \<open>return\<close> of \<open>collectEthereumMetrics\<close> returns \<open>nil\<close>: the errors of the endpoint are
  passed to the logger inside the path and never reach \<open>Wait\<close>. On another chain the path
  does nothing.
\<close>

lemma ethereum_path_returns_nil:
  assumes "collectEthereumMetrics c network = Inr (metrics, calls, err)"
  shows "err = None"
  using assms
  by (auto simp: collectEthereumMetrics_def Let_def split: if_splits option.splits sum.splits prod.splits)

lemma ethereum_path_gated:
  assumes "ChainID (cfg c) \<noteq> ''0g-galileo-testnet''"
  shows "collectEthereumMetrics c network = Inr ([], [], None)"
  using assms by (simp add: collectEthereumMetrics_def)

text \<open>
  The path panics exactly on chain \<open>0g-galileo-testnet\<close> when the configuration is \<open>nil\<close>
  or when the answer for the block number, for the balance of a configured address or
  for the staking pool is shorter than two bytes: the three places that slice \<open>[2:]\<close>
  without testing the length.
\<close>

lemma andThen_panics:
  "(\<exists>p. andThen first rest = Inl p) \<longleftrightarrow> (\<exists>p. first = Inl p) \<or> (\<exists>p. rest = Inl p)"
  by (auto simp: andThen_def split: sum.splits prod.splits)

lemma andThen_panic_is:
  "andThen first rest = Inl p \<Longrightarrow> first = Inl p \<or> rest = Inl p"
  by (auto simp: andThen_def split: sum.splits prod.splits)

lemma sliceFrom_panics: "(\<exists>p. sliceFrom s 2 = Inl p) \<longleftrightarrow> length s < 2"
  by (auto simp: sliceFrom_def)

lemma block_number_panics:
  "(\<exists>p. ethBlockNumberSection network ethClient chainID = Inl p)
     \<longleftrightarrow> shortAnswer (GetBlockNumber network ethClient)"
  by (auto simp: ethBlockNumberSection_def shortAnswer_def sliceFrom_def
      split: sum.splits option.splits)

lemma staking_contract_returns:
  "\<not> (\<exists>p. ethStakingContractSection network ethClient chainID stakingContract = Inl p)"
  by (auto simp: ethStakingContractSection_def split: sum.splits)

lemma contract_gauge_returns:
  "\<not> (\<exists>p. contractGauge answer metricName chainID retrieved argName failed = Inl p)"
  by (auto simp: contractGauge_def split: sum.splits)

lemma staking_pool_panics:
  "(\<exists>p. ethStakingPoolSection network ethClient chainID = Inl p)
     \<longleftrightarrow> shortAnswer (GetStakingPool network ethClient)"
  by (auto simp: ethStakingPoolSection_def shortAnswer_def sliceFrom_def
      split: sum.splits option.splits)

lemma validator_balance_panics:
  "(\<exists>p. ethValidatorBalanceSection network ethClient chainID ethAddrs = Inl p)
     \<longleftrightarrow> list_ex (\<lambda>ethAddr. shortAnswer (GetBalance network ethClient (Address ethAddr)))
           ethAddrs"
proof (induction ethAddrs)
  case Nil
  then show ?case by simp
next
  case (Cons ethAddr ethAddrs)
  have first: "(\<exists>p. (case GetBalance network ethClient (Address ethAddr) of
          Inr balance \<Rightarrow>
            (case sliceFrom balance 2 of
               Inl p \<Rightarrow> Inl p
             | Inr digits \<Rightarrow>
                 (case ParseIntHex digits of
                    Some bal \<Rightarrow>
                      Inr ([newMetric ''eth_validator_balance'' (float64 bal)
                              [chainID, Address ethAddr, ''unknown'']], [])
                  | None \<Rightarrow> Inr ([], [])))
        | Inl err \<Rightarrow>
            Inr ([], [LogError ''Failed to get Ethereum address balance''
                        [StringArg ''address'', StringArg (Address ethAddr),
                         StringArg ''error'', ErrorArg err]])) = (Inl p :: go_panic + Emitted))
     \<longleftrightarrow> shortAnswer (GetBalance network ethClient (Address ethAddr))"
    by (auto simp: shortAnswer_def sliceFrom_def split: sum.splits option.splits)
  show ?case
    using Cons.IH first by (simp add: andThen_panics)
qed

lemma panics_are_slices:
  "ethBlockNumberSection network ethClient chainID = Inl p \<Longrightarrow> p = SliceBoundsOutOfRange"
  "ethStakingPoolSection network ethClient chainID = Inl p \<Longrightarrow> p = SliceBoundsOutOfRange"
  by (auto simp: ethBlockNumberSection_def ethStakingPoolSection_def sliceFrom_def
      split: sum.splits option.splits if_splits)

lemma result_panics:
  "(\<exists>p. (case r of Inl p \<Rightarrow> Inl p | Inr (metrics, calls) \<Rightarrow> Inr (metrics, calls, None))
          = (Inl p :: go_panic + (Metric list \<times> LogCall list \<times> error option)))
     \<longleftrightarrow> (\<exists>p. (r :: go_panic + Emitted) = Inl p)"
  by (cases r) auto

lemma ethereum_path_panics_iff:
  "(\<exists>p. collectEthereumMetrics c network = Inl p)
     \<longleftrightarrow> ChainID (cfg c) = ''0g-galileo-testnet''
         \<and> (case ethereumConfig c of
              None \<Rightarrow> True
            | Some config \<Rightarrow>
                shortAnswer (GetBlockNumber network (clientOf config))
                \<or> list_ex (\<lambda>ethAddr. shortAnswer
                                      (GetBalance network (clientOf config) (Address ethAddr)))
                     (EthereumAddresses config)
                \<or> shortAnswer (GetStakingPool network (clientOf config)))"
proof (cases "ChainID (cfg c) = ''0g-galileo-testnet''")
  case False
  then show ?thesis by (simp add: collectEthereumMetrics_def)
next
  case True
  show ?thesis
  proof (cases "ethereumConfig c")
    case None
    then show ?thesis using True by (simp add: collectEthereumMetrics_def)
  next
    case (Some config)
    have "(\<exists>p. collectEthereumMetrics c network = Inl p)
        \<longleftrightarrow> (\<exists>p. ethBlockNumberSection network (clientOf config) (ChainID (cfg c)) = Inl p)
          \<or> (\<exists>p. ethValidatorBalanceSection network (clientOf config) (ChainID (cfg c))
                   (EthereumAddresses config) = Inl p)
          \<or> (\<exists>p. ethStakingPoolSection network (clientOf config) (ChainID (cfg c)) = Inl p)"
      using True Some
      by (cases "JWTSecret config = []")
         (simp_all add: collectEthereumMetrics_def Let_def clientOf_def result_panics
            andThen_panics contract_gauge_returns staking_contract_returns)
    then show ?thesis
      using True Some
      by (simp add: block_number_panics validator_balance_panics staking_pool_panics)
  qed
qed

subsection \<open>Collect\<close>

text \<open>
  The Cosmos path always returns. So \<open>Collect\<close> fails to return exactly when the Ethereum
  path panics; otherwise the channel receives the metrics of the Cosmos path, in their
  order, among those of the Ethereum path, and the error logged by \<open>Collect\<close> is that of
  the Cosmos path.
\<close>

lemma cosmos_path_returns:
  "\<exists>c1 metrics err. collectCosmosMetrics c currentTime = Inr (c1, metrics, err)"
proof (cases "GetStatus (client c)")
  case (Inl err)
  then show ?thesis by (simp add: collectCosmosMetrics_def)
next
  case (Inr latestBlockHeight)
  obtain btc1 ms where "blockTimeSection (blockTimeCalculator c) (ChainID (cfg c))
      latestBlockHeight currentTime = Inr (btc1, ms)"
    using blockTimeSection_returns by blast
  then show ?thesis
    using Inr by (cases "GetValidators (client c)") (simp_all add: collectCosmosMetrics_def Let_def)
qed

lemma shuffles_subseq:
  "zs \<in> shuffles xs ys \<Longrightarrow> subseq xs zs"
proof (induction xs ys arbitrary: zs rule: shuffles.induct)
  case (1 ys)
  then show ?case by simp
next
  case (2 xs)
  then show ?case by simp
next
  case (3 x xs y ys)
  then show ?case by (auto simp: subseq_Cons')
qed

lemma collect_panics_iff:
  "(\<exists>p. Collect c network currentTime = Inl p)
     \<longleftrightarrow> (\<exists>p. collectEthereumMetrics c network = Inl p)"
proof -
  obtain c1 cosmosMetrics cosmosErr
    where "collectCosmosMetrics c currentTime = Inr (c1, cosmosMetrics, cosmosErr)"
    using cosmos_path_returns by blast
  then show ?thesis
    by (cases "collectEthereumMetrics c network") (auto simp: Collect_def)
qed

lemma collect_delivers_cosmos_metrics:
  assumes "collectCosmosMetrics c currentTime = Inr (c1, cosmosMetrics, cosmosErr)"
    and "collectEthereumMetrics c network = Inr (ethereumMetrics, calls, ethereumErr)"
  shows "Collect c network currentTime
           = Inr \<lparr>collector = c1,
                  sink = shuffles cosmosMetrics ethereumMetrics,
                  ethereumLog = calls,
                  coordinatorLog =
                    (case cosmosErr of
                       None \<Rightarrow> []
                     | Some err \<Rightarrow> [LogError ''Error collecting metrics''
                                       [StringArg ''error'', ErrorArg err]])\<rparr>"
    and "received \<in> shuffles cosmosMetrics ethereumMetrics \<Longrightarrow>
           subseq cosmosMetrics received
           \<and> length received = length cosmosMetrics + length ethereumMetrics"
proof -
  have "ethereumErr = None"
    using assms(2) by (rule ethereum_path_returns_nil)
  then show "Collect c network currentTime
           = Inr \<lparr>collector = c1,
                  sink = shuffles cosmosMetrics ethereumMetrics,
                  ethereumLog = calls,
                  coordinatorLog =
                    (case cosmosErr of
                       None \<Rightarrow> []
                     | Some err \<Rightarrow> [LogError ''Error collecting metrics''
                                       [StringArg ''error'', ErrorArg err]])\<rparr>"
    using assms by (simp add: Collect_def Wait_def split: option.splits)
  show "subseq cosmosMetrics received
           \<and> length received = length cosmosMetrics + length ethereumMetrics"
    if "received \<in> shuffles cosmosMetrics ethereumMetrics"
    using that shuffles_subseq length_shuffles by blast
qed

text \<open>
  Claim C6: the metrics of the Cosmos path reach the sink whether the Ethereum path
  succeeds or fails, an error of the Ethereum path is only logged, and the scrape
  completes. On chain \<open>0g-galileo-testnet\<close>, with an endpoint whose results unmarshal to the
  empty string, the Cosmos path on its own returns 25 metrics and no error, but
  \<open>collectEthereumMetrics\<close> slices \<open>blockNumber[2:]\<close> without testing the length and panics,
  so that \<open>Collect\<close> does not return. On the same answer \<open>GetTotalValidators\<close>, which tests
  \<open>len(result) > 2\<close> before it slices, returns an error.
\<close>

theorem short_block_number_aborts_scrape:
  "GetBlockNumber emptyResultNetwork (NewEthereumClient (RPCURL exampleEthereum)) = Inr []
   \<and> GetTotalValidators emptyResultNetwork (NewEthereumClient (RPCURL exampleEthereum))
       = Inl (Error ''failed to parse totalValidators result'')
   \<and> map_sum id (\<lambda>(c1, metrics, err). (length metrics, err))
        (collectCosmosMetrics (exampleCollector tenNode) 1700000000000000000)
       = Inr (25, None)
   \<and> collectEthereumMetrics (exampleCollector tenNode) emptyResultNetwork
       = Inl SliceBoundsOutOfRange
   \<and> Collect (exampleCollector tenNode) emptyResultNetwork 1700000000000000000
       = Inl SliceBoundsOutOfRange"
proof -
  have answer:
    "GetBlockNumber emptyResultNetwork (NewEthereumClient (RPCURL exampleEthereum)) = Inr []"
    by (simp add: GetBlockNumber_def endpoint_def emptyResultNetwork_def
        emptyResultEndpoint_def)
  have guarded:
    "GetTotalValidators emptyResultNetwork (NewEthereumClient (RPCURL exampleEthereum))
       = Inl (Error ''failed to parse totalValidators result'')"
    by (simp add: GetTotalValidators_def contractCount_def CallContract_def endpoint_def
        emptyResultNetwork_def emptyResultEndpoint_def)
  have cosmos: "map_sum id (\<lambda>(c1, metrics, err). (length metrics, err))
        (collectCosmosMetrics (exampleCollector tenNode) 1700000000000000000)
       = Inr (25, None)"
    by code_simp
  have ethereum: "collectEthereumMetrics (exampleCollector tenNode) emptyResultNetwork
       = Inl SliceBoundsOutOfRange"
    by code_simp
  obtain c1 cosmosMetrics cosmosErr
    where "collectCosmosMetrics (exampleCollector tenNode) 1700000000000000000
             = Inr (c1, cosmosMetrics, cosmosErr)"
    using cosmos_path_returns by blast
  then have scrape:
    "Collect (exampleCollector tenNode) emptyResultNetwork 1700000000000000000
       = Inl SliceBoundsOutOfRange"
    by (simp add: Collect_def ethereum)
  show ?thesis
    using answer guarded cosmos ethereum scrape by blast
qed

end
